theory Spec2Isabelle
  imports Complex_Main "HOL-Library.Product_Lexorder" "HOL-Library.AList" "HOL-Library.Multiset"
begin

section \<open>Arrays, dictionaries and instants\<close>

text \<open>
  Floats are modelled as exact reals, Python integers as \<open>int\<close>, a one-dimensional
  NumPy array as a list, a boolean mask as a \<open>bool list\<close>. Signs are the integers
  0 (Aries) to 11 (Pisces); bodies are their SwissEph identifiers
  (0 Sun, 1 Moon, 2 Mercury, 3 Venus, 4 Mars, 5 Jupiter, 6 Saturn, 10 mean node).
\<close>

text \<open>
  NumPy operations on arrays of one length are elementwise; the helpers below are the
  indexing forms the sources use. A Python dictionary is an association list in insertion
  order: \<open>d[k] = v\<close> is \<open>AList.update k v d\<close> and \<open>k in d\<close> is
  \<open>map_of d k \<noteq> None\<close>.
\<close>

datatype error = ValueError | ZeroDivisionError | StopIteration | ProviderError

definition fmod :: "real \<Rightarrow> real \<Rightarrow> real" where
  \<comment> \<open>\<open>x % m\<close> on floats, for a positive modulus\<close>
  "fmod x m = x - m * of_int \<lfloor>x / m\<rfloor>"

definition np_any :: "bool list \<Rightarrow> bool" where
  "np_any msk = (True \<in> set msk)"

definition np_where :: "bool list \<Rightarrow> 'a \<Rightarrow> 'a \<Rightarrow> 'a list" where
  \<comment> \<open>\<open>np.where(mask, a, b)\<close> with scalar branches\<close>
  "np_where msk a b = map (\<lambda>m. if m then a else b) msk"

definition take_mask :: "bool list \<Rightarrow> 'a list \<Rightarrow> 'a list" where
  \<comment> \<open>\<open>arr[mask]\<close>\<close>
  "take_mask msk arr = map snd (filter fst (zip msk arr))"

fun put_mask :: "bool list \<Rightarrow> 'a list \<Rightarrow> 'a list \<Rightarrow> 'a list" where
  \<comment> \<open>\<open>arr[mask] = vals\<close>, \<open>vals\<close> holding one value per true position\<close>
  "put_mask (m # ms) (x # xs) vals =
     (if m then (case vals of v # vs \<Rightarrow> v # put_mask ms xs vs | [] \<Rightarrow> x # put_mask ms xs [])
      else x # put_mask ms xs vals)"
| "put_mask ms xs vals = xs"

definition fill_mask :: "bool list \<Rightarrow> 'a \<Rightarrow> 'a list \<Rightarrow> 'a list" where
  \<comment> \<open>\<open>arr[mask] = c\<close> for a scalar \<open>c\<close>\<close>
  "fill_mask msk c arr = map2 (\<lambda>m x. if m then c else x) msk arr"

definition vadd :: "real list \<Rightarrow> real list \<Rightarrow> real list" where
  "vadd xs ys = map2 (+) xs ys"

definition vor :: "bool list \<Rightarrow> bool list \<Rightarrow> bool list" where
  "vor xs ys = map2 (\<or>) xs ys"

definition col :: "nat \<Rightarrow> 'a list list \<Rightarrow> 'a list" where
  \<comment> \<open>\<open>matrix[:, k]\<close>\<close>
  "col k matrix = map (\<lambda>row. row ! k) matrix"

definition getitem :: "('k \<times> 'v) list \<Rightarrow> 'k \<Rightarrow> 'v" where
  \<comment> \<open>\<open>d[k]\<close> at a key the dictionary holds\<close>
  "getitem d k = the (map_of d k)"

text \<open>
  A naive \<open>datetime\<close> is its number of microseconds on the proleptic timeline, a
  \<open>timedelta\<close> a difference of such numbers.
\<close>

type_synonym datetime = int

definition MINUTE :: int where "MINUTE = 60000000"

definition dt_hour :: "datetime \<Rightarrow> int" where "dt_hour t = (t div (60 * MINUTE)) mod 24"
definition dt_minute :: "datetime \<Rightarrow> int" where "dt_minute t = (t div MINUTE) mod 60"
definition dt_second :: "datetime \<Rightarrow> int" where "dt_second t = (t div 1000000) mod 60"
definition dt_day_ordinal :: "datetime \<Rightarrow> int" where "dt_day_ordinal t = t div (24 * 60 * MINUTE)"

definition py_int :: "real \<Rightarrow> int" where
  \<comment> \<open>\<open>int(x)\<close> truncates towards zero\<close>
  "py_int x = (if 0 \<le> x then \<lfloor>x\<rfloor> else \<lceil>x\<rceil>)"

text \<open>
  Python's \<open>round(x, ndigits)\<close> on exact values: to the nearest multiple of
  \<open>10 ^ -ndigits\<close>, a tie going to the even neighbour.
\<close>

definition py_round :: "real \<Rightarrow> nat \<Rightarrow> real" where
  "py_round x ndigits =
     (let y = x * 10 ^ ndigits; f = \<lfloor>y\<rfloor>; d = y - of_int f
      in (if d < 1 / 2 then of_int f
          else if 1 / 2 < d then of_int (f + 1)
          else if even f then of_int f else of_int (f + 1)) / 10 ^ ndigits)"

definition HOUR :: int where "HOUR = 3600000000"

section \<open>The external providers\<close>

text \<open>
  The Swiss Ephemeris calls are external. \<open>julday\<close> stands for \<open>swe.julday\<close> applied
  to the calendar date of a day ordinal and a decimal hour; \<open>calc_ut\<close> returns the six
  numbers of a body at a Julian day, or \<open>None\<close> where the call raises; \<open>houses\<close>
  returns the cusps (twelve numbers) and the angles (Ascendant first, Midheaven second),
  or \<open>None\<close> where the call raises.
\<close>

record position =
  p_lon :: real
  p_lat :: real
  p_dist :: real
  p_speed_lon :: real
  p_speed_lat :: real
  p_speed_dist :: real

definition zero_position :: position where
  "zero_position = \<lparr> p_lon = 0, p_lat = 0, p_dist = 0, p_speed_lon = 0, p_speed_lat = 0, p_speed_dist = 0 \<rparr>"

record swe =
  julday :: "int \<Rightarrow> real \<Rightarrow> real"
  calc_ut :: "real \<Rightarrow> int \<Rightarrow> position option"
  houses :: "real \<Rightarrow> real \<Rightarrow> real \<Rightarrow> (real list \<times> real list) option"

section \<open>EphemerisAdapter (core/vectorized\_ephemeris.py)\<close>

definition BODIES_values :: "int list" where
  "BODIES_values = [0, 1, 2, 3, 4, 5, 6, 7, 8, 9, 10, 11]"

definition to_jd :: "swe \<Rightarrow> datetime \<Rightarrow> real" where
  "to_jd sw t =
     (let hour_decimal = real_of_int (dt_hour t) + real_of_int (dt_minute t) / 60
                         + real_of_int (dt_second t) / 3600
      in julday sw (dt_day_ordinal t) hour_decimal)"

text \<open>
  \<open>np.vectorize(converter)(times)\<close> without \<open>otypes\<close> raises \<open>ValueError\<close> on an
  input of size 0; the call stands outside the \<open>try\<close> of \<open>calculate_positions\<close>.
\<close>

definition convert_times_to_jd :: "swe \<Rightarrow> datetime list \<Rightarrow> error + real list" where
  "convert_times_to_jd sw tms =
     (if tms = [] then Inl ValueError else Inr (map (to_jd sw) tms))"

text \<open>
  The loop over the bodies. The state is the result dictionary and the list of bodies
  whose failure was logged; a body one of whose calls raises gets the zero-filled array.
\<close>

fun calculate_bodies ::
  "swe \<Rightarrow> real list \<Rightarrow> int list \<Rightarrow> (int \<times> position list) list \<times> int list
   \<Rightarrow> (int \<times> position list) list \<times> int list" where
  "calculate_bodies sw jds [] st = st"
| "calculate_bodies sw jds (body # bodies) (results, logged) =
     calculate_bodies sw jds bodies
       (case those (map (\<lambda>jd. calc_ut sw jd body) jds) of
          Some body_data \<Rightarrow> (AList.update body body_data results, logged)
        | None \<Rightarrow> (AList.update body (replicate (length jds) zero_position) results,
                   logged @ [body]))"

definition calculate_positions ::
  "swe \<Rightarrow> datetime list \<Rightarrow> int list option
   \<Rightarrow> error + (int \<times> position list) list \<times> int list" where
  "calculate_positions sw tms bodies =
     (let bodies = (case bodies of None \<Rightarrow> BODIES_values | Some bs \<Rightarrow> bs)
      in case convert_times_to_jd sw tms of
           Inl e \<Rightarrow> Inl e
         | Inr jds \<Rightarrow> Inr (calculate_bodies sw jds bodies ([], [])))"

definition get_longitudes :: "(int \<times> position list) list \<Rightarrow> (int \<times> real list) list" where
  "get_longitudes positions = map (\<lambda>(k, v). (k, map p_lon v)) positions"

definition get_speeds :: "(int \<times> position list) list \<Rightarrow> (int \<times> real list) list" where
  "get_speeds positions = map (\<lambda>(k, v). (k, map p_speed_lon v)) positions"

section \<open>HouseCalculator (core/vectorized\_houses.py)\<close>

text \<open>No \<open>try\<close> here: a call that raises ends the whole computation.\<close>

definition calculate_houses ::
  "swe \<Rightarrow> datetime list \<Rightarrow> real \<Rightarrow> real \<Rightarrow> error + real list list \<times> real list list" where
  "calculate_houses sw tms lat lon =
     (let jds = map (to_jd sw) tms
      in case those (map (\<lambda>jd. houses sw jd lat lon) jds) of
           None \<Rightarrow> Inl ProviderError
         | Some batch_results \<Rightarrow> Inr (map fst batch_results, map snd batch_results))"

section \<open>AspectLogic: sign tables and dignity masks (core/vectorized\_logic.py)\<close>

definition RULER_MAP :: "(int \<times> int) list" where
  "RULER_MAP = [(0, 4), (1, 3), (2, 2), (3, 1), (4, 0), (5, 2),
                (6, 3), (7, 4), (8, 5), (9, 6), (10, 6), (11, 5)]"

definition EXALTATION_MAP :: "(int \<times> int) list" where
  "EXALTATION_MAP = [(0, 0), (1, 1), (2, 5), (3, 11), (4, 9), (5, 3), (6, 6)]"

text \<open>The two loops of \<open>__init__\<close> that derive detriments and falls.\<close>

definition DETRIMENT_MAP :: "int \<rightharpoonup> int list" where
  "DETRIMENT_MAP =
     fold (\<lambda>(sign, planet) d.
             let opposite = (sign + 6) mod 12;
                 d' = (if d planet = None then d(planet \<mapsto> []) else d)
             in d'(planet \<mapsto> the (d' planet) @ [opposite]))
          RULER_MAP Map.empty"

definition FALL_MAP :: "int \<rightharpoonup> int" where
  "FALL_MAP = fold (\<lambda>(planet, sign) f. f(planet \<mapsto> (sign + 6) mod 12)) EXALTATION_MAP Map.empty"

definition get_ruler_for_sign :: "int \<Rightarrow> int" where
  "get_ruler_for_sign sign_index = (case map_of RULER_MAP sign_index of Some p \<Rightarrow> p | None \<Rightarrow> 0)"

definition sign_of :: "real \<Rightarrow> int" where
  "sign_of l = \<lfloor>l / 30\<rfloor> mod 12"

definition get_sign_indices :: "real list \<Rightarrow> int list" where
  "get_sign_indices longitudes = map sign_of longitudes"

definition isin :: "'a list \<Rightarrow> 'a list \<Rightarrow> bool list" where
  "isin xs vals = map (\<lambda>x. x \<in> set vals) xs"

definition good_signs :: "int \<Rightarrow> int list" where
  "good_signs planet_id =
     (let ruled_signs = map fst (filter (\<lambda>(s, p). p = planet_id) RULER_MAP)
      in case map_of EXALTATION_MAP planet_id of
           None \<Rightarrow> ruled_signs
         | Some exalted_sign \<Rightarrow> ruled_signs @ [exalted_sign])"

definition mask_dignity :: "int \<Rightarrow> real list \<Rightarrow> bool list" where
  "mask_dignity planet_id longitudes = isin (get_sign_indices longitudes) (good_signs planet_id)"

definition bad_signs :: "int \<Rightarrow> int list" where
  "bad_signs planet_id =
     (let detriment_signs = (case DETRIMENT_MAP planet_id of Some ds \<Rightarrow> ds | None \<Rightarrow> [])
      in case FALL_MAP planet_id of
           None \<Rightarrow> detriment_signs
         | Some fall_sign \<Rightarrow> detriment_signs @ [fall_sign])"

definition mask_debility :: "int \<Rightarrow> real list \<Rightarrow> bool list" where
  "mask_debility planet_id longitudes = isin (get_sign_indices longitudes) (bad_signs planet_id)"

section \<open>AspectLogic: aspects, phase and void of course (core/vectorized\_logic.py)\<close>

definition mask_signs :: "real list \<Rightarrow> int list \<Rightarrow> bool list" where
  "mask_signs longitudes forbidden_signs = isin (get_sign_indices longitudes) forbidden_signs"

definition calculate_aspects :: "real list \<Rightarrow> real list \<Rightarrow> real list" where
  "calculate_aspects body1_longs body2_longs =
     map2 (\<lambda>a b. let diff = \<bar>a - b\<bar> in min diff (360 - diff)) body1_longs body2_longs"

definition mask_exact_aspect :: "real list \<Rightarrow> real list \<Rightarrow> real \<Rightarrow> real \<Rightarrow> bool list" where
  "mask_exact_aspect body1 body2 aspect_angle orb =
     map (\<lambda>ang_diff. \<bar>ang_diff - aspect_angle\<bar> \<le> orb) (calculate_aspects body1 body2)"

definition mask_phase :: "real list \<Rightarrow> real list \<Rightarrow> real \<Rightarrow> bool list" where
  "mask_phase sun moon orb =
     map (\<lambda>diff. diff \<le> orb \<or> \<bar>diff - 180\<bar> \<le> orb) (calculate_aspects sun moon)"

text \<open>
  One pass of the innermost loop of \<open>mask_void_of_course\<close>: the forward distance from
  the Moon to one target array, and \<open>is_voc[aspect_occurs_in_sign] = False\<close>.
\<close>

definition voc_target_step ::
  "real list \<Rightarrow> real list \<Rightarrow> real list \<Rightarrow> bool list \<Rightarrow> bool list" where
  "voc_target_step moon_longs dist_to_ingress target is_voc =
     (let dist_to_target = map2 (\<lambda>t m. fmod (t - m) 360) target moon_longs;
          aspect_occurs_in_sign = map2 (<) dist_to_target dist_to_ingress
      in fill_mask aspect_occurs_in_sign False is_voc)"

definition mask_void_of_course ::
  "datetime list \<Rightarrow> real list \<Rightarrow> (int \<times> real list) list \<Rightarrow> bool list" where
  "mask_void_of_course tms moon_longs planet_positions =
     (let dist_to_ingress = map (\<lambda>m. (of_int \<lfloor>m / 30\<rfloor> * 30 + 30) - m) moon_longs;
          major_aspects = [0, 60, 90, 120, 180];
          target_bodies = [0, 2, 3, 4, 5, 6]
      in fold (\<lambda>pid is_voc.
                 case map_of planet_positions pid of
                   None \<Rightarrow> is_voc
                 | Some p_longs \<Rightarrow>
                     fold (\<lambda>asp is_voc.
                             fold (voc_target_step moon_longs dist_to_ingress)
                                  [map (\<lambda>p. fmod (p + asp) 360) p_longs,
                                   map (\<lambda>p. fmod (p - asp) 360) p_longs]
                                  is_voc)
                          major_aspects is_voc)
              target_bodies (replicate (length moon_longs) True))"

section \<open>NatalLinkage (core/vectorized\_natal.py, core/astro\_config.py)\<close>

definition ORB_MOON_PHASE :: real where "ORB_MOON_PHASE = 8"





section \<open>Topic configuration (core/theme\_config.py, config/temas\_casas.py)\<close>

text \<open>
  \<open>str.lower\<close> on the ASCII letters. The display names are not modelled.
\<close>

definition lower_char :: "char \<Rightarrow> char" where
  "lower_char c = (let n = (of_char c :: nat) in if 65 \<le> n \<and> n \<le> 90 then char_of (n + 32) else c)"

definition lower :: "string \<Rightarrow> string" where
  "lower s = map lower_char s"

record ThemeConfig =
  target_house :: int
  natural_ruler :: "int option"
  secondary_house :: "int option"

definition THEMES :: "(string \<times> ThemeConfig) list" where
  "THEMES =
     [(''trabajo'', \<lparr> target_house = 10, natural_ruler = Some 6, secondary_house = Some 6 \<rparr>),
      (''lanzamiento'', \<lparr> target_house = 10, natural_ruler = Some 4, secondary_house = Some 1 \<rparr>),
      (''amor'', \<lparr> target_house = 7, natural_ruler = Some 3, secondary_house = Some 5 \<rparr>),
      (''dinero'', \<lparr> target_house = 2, natural_ruler = Some 5, secondary_house = Some 8 \<rparr>),
      (''viaje'', \<lparr> target_house = 9, natural_ruler = Some 5, secondary_house = Some 3 \<rparr>),
      (''inmobiliaria'', \<lparr> target_house = 4, natural_ruler = Some 1, secondary_house = None \<rparr>)]"

definition get_theme_config :: "string \<Rightarrow> ThemeConfig" where
  "get_theme_config theme_name =
     (case map_of THEMES (lower theme_name) of
        Some config \<Rightarrow> config
      | None \<Rightarrow> getitem THEMES ''trabajo'')"

definition TEMAS_CASAS :: "(string \<times> int) list" where
  "TEMAS_CASAS =
     [(''trabajo'', 10), (''amor'', 7), (''viajes'', 9), (''salud'', 6), (''dinero'', 2),
      (''estudios'', 3), (''familia'', 4), (''creatividad'', 5), (''amistades'', 11),
      (''espiritualidad'', 12)]"

definition get_casa_for_tema :: "string \<Rightarrow> error + int" where
  "get_casa_for_tema tema =
     (if map_of TEMAS_CASAS tema = None then Inl ValueError else Inr (getitem TEMAS_CASAS tema))"

section \<open>ScoringEngine (core/vectorized\_scoring.py)\<close>

text \<open>
  Every scoring function threads the pair \<open>(total_score, details)\<close>.
  \<open>add_component\<close> is the recurring pair of statements
  \<open>total_score += score; details[name] = score\<close>; \<open>in_house\<close> is the recurring
  test that a longitude lies between a cusp and the next one, with the wrap at 360.
\<close>

type_synonym score_state = "real list \<times> (string \<times> real list) list"

definition zeros :: "nat \<Rightarrow> real list" where
  "zeros n = replicate n 0"

definition add_component :: "string \<Rightarrow> real list \<Rightarrow> score_state \<Rightarrow> score_state" where
  "add_component name score st = (vadd (fst st) score, AList.update name score (snd st))"

definition in_house :: "real list \<Rightarrow> real list \<Rightarrow> real list \<Rightarrow> bool list" where
  "in_house cusp_start cusp_end p_longs =
     map (\<lambda>(cs, ce, p). (cs < ce \<and> p \<ge> cs \<and> p < ce) \<or> (\<not> cs < ce \<and> (p \<ge> cs \<or> p < ce)))
         (zip cusp_start (zip cusp_end p_longs))"

definition favorable_house_mask :: "nat list \<Rightarrow> real list list \<Rightarrow> real list \<Rightarrow> bool list" where
  "favorable_house_mask favorable_indices house_cusps p_longs =
     fold (\<lambda>h_idx is_fav.
             vor is_fav (in_house (col h_idx house_cusps) (col ((h_idx + 1) mod 12) house_cusps) p_longs))
          favorable_indices (replicate (length p_longs) False)"

definition soft_aspect_points :: "real list \<Rightarrow> real list \<Rightarrow> real \<Rightarrow> real list" where
  \<comment> \<open>conjunction (orb 8), sextile and trine (orb 6), the same points for each\<close>
  "soft_aspect_points a b points =
     vadd (vadd (vadd (zeros (length a))
                      (np_where (mask_exact_aspect a b 0 8) points 0))
                (np_where (mask_exact_aspect a b 60 6) points 0))
          (np_where (mask_exact_aspect a b 120 6) points 0)"

subsection \<open>Moon group\<close>

definition score_aspect ::
  "real list \<Rightarrow> (int \<times> real list) list \<Rightarrow> int \<Rightarrow> real \<Rightarrow> real \<Rightarrow> string \<Rightarrow> score_state \<Rightarrow> score_state" where
  "score_aspect moon_longs planet_longs planet_id aspect_angle points name st =
     (case map_of planet_longs planet_id of
        None \<Rightarrow> st
      | Some p_pos \<Rightarrow>
          (let orb = (if aspect_angle = 0 then 8 else 6);
               msk = mask_exact_aspect moon_longs p_pos aspect_angle orb
           in add_component name (np_where msk points 0) st))"

definition get_ruler_positions :: "(int \<times> real list) list \<Rightarrow> nat \<Rightarrow> int list \<Rightarrow> real list" where
  "get_ruler_positions planet_longs N signs_arr =
     fold (\<lambda>sign_id ruler_pos_arr.
             let pid = get_ruler_for_sign sign_id
             in case map_of planet_longs pid of
                  None \<Rightarrow> ruler_pos_arr
                | Some p_longs \<Rightarrow>
                    (let msk = map (\<lambda>s. s = sign_id) signs_arr
                     in if \<not> np_any msk then ruler_pos_arr
                        else put_mask msk ruler_pos_arr (take_mask msk p_longs)))
          [0, 1, 2, 3, 4, 5, 6, 7, 8, 9, 10, 11] (zeros N)"

definition calculate_moon_score ::
  "datetime list \<Rightarrow> real list \<Rightarrow> real list \<Rightarrow> (int \<times> real list) list
   \<Rightarrow> real list list \<Rightarrow> real list list \<Rightarrow> score_state" where
  "calculate_moon_score tms moon_longs sun_longs planet_longs house_cusps ascmc =
     (let N = length moon_longs;
          st = (zeros N, []);
          signs = get_sign_indices moon_longs;
          st = add_component ''moon_cancer'' (np_where (map (\<lambda>s. s = 3) signs) 1 0) st;
          st = add_component ''moon_taurus'' (np_where (map (\<lambda>s. s = 1) signs) 1 0) st;
          diff_sun_moon = map2 (\<lambda>m s. fmod (m - s) 360) moon_longs sun_longs;
          is_waxing = map (\<lambda>d. d > 0 \<and> d < 180) diff_sun_moon;
          st = add_component ''moon_waxing'' (np_where is_waxing 1 0) st;
          st = score_aspect moon_longs planet_longs 5 120 1 ''moon_trine_jup'' st;
          st = score_aspect moon_longs planet_longs 5 60 1 ''moon_sext_jup'' st;
          st = score_aspect moon_longs planet_longs 5 0 1 ''moon_conj_jup'' st;
          st = score_aspect moon_longs planet_longs 3 120 1 ''moon_trine_ven'' st;
          st = score_aspect moon_longs planet_longs 3 60 1 ''moon_sext_ven'' st;
          st = score_aspect moon_longs planet_longs 3 0 1 ''moon_conj_ven'' st;
          st = score_aspect moon_longs planet_longs 0 120 1 ''moon_trine_sun'' st;
          st = score_aspect moon_longs planet_longs 0 60 1 ''moon_sext_sun'' st;
          is_favorable_house = favorable_house_mask [4, 8, 9, 10] house_cusps moon_longs;
          st = add_component ''moon_favorable_house'' (np_where is_favorable_house 1 0) st;
          asc_signs = get_sign_indices (col 0 ascmc);
          mc_signs = get_sign_indices (col 9 house_cusps);
          ruler_asc_pos = get_ruler_positions planet_longs N asc_signs;
          ruler_h10_pos = get_ruler_positions planet_longs N mc_signs;
          st = add_component ''moon_aspect_ruler_asc'' (soft_aspect_points moon_longs ruler_asc_pos 2) st;
          st = add_component ''moon_aspect_ruler_h10'' (soft_aspect_points moon_longs ruler_h10_pos 2) st
      in st)"

subsection \<open>Ruler group\<close>

definition TRIPLICITY_RULERS :: "(int \<times> int list) list" where
  "TRIPLICITY_RULERS =
     [(0, [0, 5, 6]), (4, [0, 5, 6]), (8, [0, 5, 6]),
      (1, [3, 1, 4]), (5, [3, 1, 4]), (9, [3, 1, 4]),
      (2, [6, 2, 5]), (6, [6, 2, 5]), (10, [6, 2, 5]),
      (3, [3, 4, 1]), (7, [3, 4, 1]), (11, [3, 4, 1])]"

definition TERMS_MAP :: "(int \<times> (real \<times> int) list) list" where
  "TERMS_MAP =
     [(0, [(6, 5), (12, 3), (20, 2), (25, 4), (30, 6)]),
      (1, [(8, 3), (14, 2), (22, 5), (27, 6), (30, 4)]),
      (2, [(6, 2), (12, 5), (17, 3), (24, 4), (30, 6)]),
      (3, [(7, 4), (13, 3), (19, 2), (26, 5), (30, 6)]),
      (4, [(6, 5), (11, 3), (18, 6), (24, 2), (30, 4)]),
      (5, [(7, 2), (17, 3), (21, 5), (28, 4), (30, 6)]),
      (6, [(6, 6), (14, 3), (21, 5), (28, 2), (30, 4)]),
      (7, [(7, 4), (11, 3), (19, 2), (24, 5), (30, 6)]),
      (8, [(12, 5), (17, 3), (21, 2), (26, 6), (30, 4)]),
      (9, [(7, 2), (14, 5), (22, 3), (26, 6), (30, 4)]),
      (10, [(7, 2), (13, 3), (20, 5), (25, 4), (30, 6)]),
      (11, [(12, 3), (16, 5), (19, 2), (28, 4), (30, 6)])]"

text \<open>The first loop over the bodies 0 to 6: domicile and exaltation.\<close>

definition dom_exalt_step ::
  "real list \<Rightarrow> int list \<Rightarrow> int \<Rightarrow> bool list \<times> bool list \<Rightarrow> bool list \<times> bool list" where
  "dom_exalt_step ruler_longs ruler_ids pid st =
     (let mask_pid = map (\<lambda>r. r = pid) ruler_ids
      in if \<not> np_any mask_pid then st
         else
           (let ruled_signs = map fst (filter (\<lambda>(s, p). p = pid) RULER_MAP);
                current_signs = get_sign_indices (take_mask mask_pid ruler_longs);
                is_dom = put_mask mask_pid (fst st) (isin current_signs ruled_signs)
            in case map_of EXALTATION_MAP pid of
                 None \<Rightarrow> (is_dom, snd st)
               | Some exalt_sign \<Rightarrow>
                   (is_dom, put_mask mask_pid (snd st) (map (\<lambda>s. s = exalt_sign) current_signs))))"

text \<open>
  The second loop: triplicity and term. Of the two inner loops over the terms of a sign
  the first changes nothing; the second is \<open>term_step\<close>, with \<open>prev\<close> the previous bound.
\<close>

fun term_step ::
  "real list \<Rightarrow> int list \<Rightarrow> int \<Rightarrow> int \<Rightarrow> real \<Rightarrow> (real \<times> int) list \<Rightarrow> bool list \<Rightarrow> bool list" where
  "term_step ruler_longs ruler_ids pid s prev [] is_term = is_term"
| "term_step ruler_longs ruler_ids pid s prev ((b, r) # terms) is_term =
     term_step ruler_longs ruler_ids pid s b terms
       (if r = pid then
          fill_mask
            (map2 (\<lambda>rid l. rid = pid \<and> sign_of l = s \<and> fmod l 30 \<ge> prev \<and> fmod l 30 < b)
                  ruler_ids ruler_longs)
            True is_term
        else is_term)"

definition trip_term_step ::
  "real list \<Rightarrow> int list \<Rightarrow> int \<Rightarrow> bool list \<times> bool list \<Rightarrow> bool list \<times> bool list" where
  "trip_term_step ruler_longs ruler_ids pid st =
     (let mask_pid = map (\<lambda>r. r = pid) ruler_ids
      in if \<not> np_any mask_pid then st
         else
           (let p_longs = take_mask mask_pid ruler_longs;
                p_signs = get_sign_indices p_longs;
                unique_signs = sort (remdups p_signs);
                is_trip =
                  fold (\<lambda>s is_trip.
                          let rulers = (case map_of TRIPLICITY_RULERS s of Some rs \<Rightarrow> rs | None \<Rightarrow> [])
                          in if pid \<in> set rulers
                             then fill_mask
                                    (map2 (\<lambda>m l. m \<and> of_int \<lfloor>l / 30\<rfloor> = (of_int s :: real))
                                          mask_pid ruler_longs)
                                    True is_trip
                             else is_trip)
                       unique_signs (fst st);
                is_term =
                  fold (\<lambda>s is_term.
                          let terms = (case map_of TERMS_MAP s of Some ts \<Rightarrow> ts | None \<Rightarrow> [])
                          in term_step ruler_longs ruler_ids pid s 0 terms is_term)
                       unique_signs (snd st)
            in (is_trip, is_term)))"

definition add_aspect_points ::
  "string \<Rightarrow> real list \<Rightarrow> (int \<times> real list) list \<Rightarrow> int \<Rightarrow> string \<Rightarrow> score_state \<Rightarrow> score_state" where
  "add_aspect_points prefix ruler_longs planet_longs target_pid target_name st =
     (case map_of planet_longs target_pid of
        None \<Rightarrow> st
      | Some target_pos \<Rightarrow>
          add_component (prefix @ ''_aspect_'' @ target_name)
            (soft_aspect_points ruler_longs target_pos 1) st)"

definition calculate_ruler_score ::
  "datetime list \<Rightarrow> string \<Rightarrow> real list \<Rightarrow> int list \<Rightarrow> real list \<Rightarrow> (int \<times> real list) list
   \<Rightarrow> real list list \<Rightarrow> real list option \<Rightarrow> score_state" where
  "calculate_ruler_score tms ruler_type ruler_longs ruler_ids sun_longs planet_longs
       house_cusps ruler_speeds =
     (let N = length ruler_longs;
          st = (zeros N, []);
          prefix = ''ruler_'' @ lower ruler_type;
          (is_dom, is_exalt) =
            fold (dom_exalt_step ruler_longs ruler_ids) [0, 1, 2, 3, 4, 5, 6]
                 (replicate N False, replicate N False);
          score_dom = np_where is_dom 1 0;
          score_exalt = np_where is_exalt 1 0;
          st = (vadd (vadd (fst st) score_dom) score_exalt,
                AList.update (prefix @ ''_exaltation'') score_exalt
                  (AList.update (prefix @ ''_domicile'') score_dom (snd st)));
          (is_trip, is_term) =
            fold (trip_term_step ruler_longs ruler_ids) [0, 1, 2, 3, 4, 5, 6]
                 (replicate N False, replicate N False);
          score_trip = np_where is_trip (1 / 2) 0;
          score_term = np_where is_term (1 / 2) 0;
          st = (vadd (vadd (fst st) score_trip) score_term,
                AList.update (prefix @ ''_term'') score_term
                  (AList.update (prefix @ ''_triplicity'') score_trip (snd st)));
          st = (case ruler_speeds of
                  None \<Rightarrow> st
                | Some speeds \<Rightarrow>
                    add_component (prefix @ ''_direct'')
                      (np_where (map (\<lambda>v. v > 0) speeds) 1 0) st);
          diff_sun = calculate_aspects ruler_longs sun_longs;
          is_not_combust = map (\<lambda>d. d > 17) diff_sun;
          st = add_component (prefix @ ''_not_combust'') (np_where is_not_combust 1 0) st;
          is_fav_house = favorable_house_mask [0, 9, 10, 8, 4] house_cusps ruler_longs;
          st = add_component (prefix @ ''_fav_house'') (np_where is_fav_house 1 0) st;
          st = add_aspect_points prefix ruler_longs planet_longs 5 ''jupiter'' st;
          st = add_aspect_points prefix ruler_longs planet_longs 3 ''venus'' st
      in st)"

subsection \<open>Natal-linkage group\<close>

definition score_natal_aspect ::
  "nat \<Rightarrow> (int \<times> real) list \<Rightarrow> real list \<Rightarrow> int \<Rightarrow> real \<Rightarrow> real \<Rightarrow> real \<Rightarrow> string
   \<Rightarrow> score_state \<Rightarrow> score_state" where
  "score_natal_aspect N natal_chart elect_point natal_pid points_conj points_trine points_sext name st =
     (case map_of natal_chart natal_pid of
        None \<Rightarrow> st
      | Some nat_pos \<Rightarrow>
          (let nat_arr = replicate N nat_pos;
               mask_c = mask_exact_aspect elect_point nat_arr 0 5;
               mask_t = mask_exact_aspect elect_point nat_arr 120 5;
               mask_s = mask_exact_aspect elect_point nat_arr 60 5;
               s = vadd (vadd (vadd (zeros N) (np_where mask_c points_conj 0))
                              (np_where mask_t points_trine 0))
                        (np_where mask_s points_sext 0)
           in add_component name s st))"

definition natal_penalty ::
  "nat \<Rightarrow> (int \<times> real) list \<Rightarrow> real list \<Rightarrow> int \<Rightarrow> string \<Rightarrow> score_state \<Rightarrow> score_state" where
  \<comment> \<open>the two blocks \<open>if 6 in natal_chart\<close>, \<open>if 4 in natal_chart\<close>\<close>
  "natal_penalty N natal_chart asc_elect pid name st =
     (case map_of natal_chart pid of
        None \<Rightarrow> st
      | Some nat_pos \<Rightarrow>
          add_component name
            (np_where (mask_exact_aspect asc_elect (replicate N nat_pos) 0 5) (- 2) 0) st)"

definition calculate_natal_score ::
  "datetime list \<Rightarrow> real list list \<Rightarrow> real list list \<Rightarrow> (int \<times> real) list \<Rightarrow> score_state" where
  "calculate_natal_score tms ascmc cusps natal_chart =
     (let N = length tms;
          st = (zeros N, [])
      in if natal_chart = [] then st
         else
           (let asc_elect = col 0 ascmc;
                mc_elect = col 1 ascmc;
                st = natal_penalty N natal_chart asc_elect 6 ''natal_asc_conj_sat'' st;
                st = natal_penalty N natal_chart asc_elect 4 ''natal_asc_conj_mar'' st;
                st = score_natal_aspect N natal_chart asc_elect 0 1 1 1 ''natal_asc_sun'' st;
                st = score_natal_aspect N natal_chart asc_elect 1 1 1 1 ''natal_asc_moon'' st;
                st = score_natal_aspect N natal_chart asc_elect 3 1 1 1 ''natal_asc_ven'' st;
                st = score_natal_aspect N natal_chart asc_elect 5 1 1 1 ''natal_asc_jup'' st;
                st = score_natal_aspect N natal_chart asc_elect 12 2 1 1 ''natal_asc_asc'' st;
                st = score_natal_aspect N natal_chart mc_elect 0 1 0 0 ''natal_mc_conj_sun'' st;
                st = score_natal_aspect N natal_chart mc_elect 1 1 0 0 ''natal_mc_conj_moon'' st;
                st = score_natal_aspect N natal_chart mc_elect 3 1 0 0 ''natal_mc_conj_ven'' st;
                st = score_natal_aspect N natal_chart mc_elect 5 1 0 0 ''natal_mc_conj_jup'' st
            in st))"

subsection \<open>Combinations group\<close>

text \<open>
  \<open>is_in_h10\<close> is the local helper of \<open>calculate_combinations_score\<close>: between cusp 10
  (column 9) and cusp 11 (column 10). The function has no parameter for the topic's house.
\<close>

definition is_in_h10 :: "real list list \<Rightarrow> real list \<Rightarrow> bool list" where
  "is_in_h10 cusps p_longs = in_house (col 9 cusps) (col 10 cusps) p_longs"

definition comb_positive ::
  "real list list \<Rightarrow> (int \<times> real list) list \<Rightarrow> int \<Rightarrow> string \<Rightarrow> score_state \<Rightarrow> score_state" where
  \<comment> \<open>the blocks \<open>if 0 in planet_longs\<close>, \<open>if 5 in planet_longs\<close>, \<open>if 1 in planet_longs\<close>\<close>
  "comb_positive cusps planet_longs pid name st =
     (case map_of planet_longs pid of
        None \<Rightarrow> st
      | Some p_longs \<Rightarrow> add_component name (np_where (is_in_h10 cusps p_longs) 2 0) st)"

definition comb_negative ::
  "real list list \<Rightarrow> (int \<times> real list) list \<Rightarrow> bool \<Rightarrow> int \<Rightarrow> string \<Rightarrow> string
   \<Rightarrow> score_state \<Rightarrow> score_state" where
  \<comment> \<open>the Saturn block and the Mars block (\<open>if not skip and pid in planet_longs\<close>): house 10, then house 1\<close>
  "comb_negative cusps planet_longs skip pid name_h10 name_asc st =
     (if skip then st
      else case map_of planet_longs pid of
             None \<Rightarrow> st
           | Some p_longs \<Rightarrow>
               (let st = add_component name_h10 (np_where (is_in_h10 cusps p_longs) (- 1) 0) st;
                    in_h1 = in_house (col 0 cusps) (col 1 cusps) p_longs
                in add_component name_asc (np_where in_h1 (- 1) 0) st))"

definition calculate_combinations_score ::
  "datetime list \<Rightarrow> int list \<Rightarrow> real list \<Rightarrow> int list \<Rightarrow> real list \<Rightarrow> (int \<times> real list) list
   \<Rightarrow> real list list \<Rightarrow> real list list \<Rightarrow> int option \<Rightarrow> score_state" where
  "calculate_combinations_score tms ruler_asc_ids ruler_asc_longs ruler_h10_ids ruler_h10_longs
       planet_longs ascmc cusps natal_asc_sign =
     (let N = length tms;
          st = (zeros N, []);
          mask_conj = mask_exact_aspect ruler_asc_longs ruler_h10_longs 0 8;
          mask_sext = mask_exact_aspect ruler_asc_longs ruler_h10_longs 60 6;
          mask_trin = mask_exact_aspect ruler_asc_longs ruler_h10_longs 120 6;
          score_asp = np_where (vor (vor mask_conj mask_sext) mask_trin) 2 0;
          st = add_component ''comb_pos_rulers_aspect'' score_asp st;
          st = comb_positive cusps planet_longs 0 ''comb_pos_sun_h10'' st;
          st = comb_positive cusps planet_longs 5 ''comb_pos_jup_h10'' st;
          st = comb_positive cusps planet_longs 1 ''comb_pos_moon_h10'' st;
          skip_saturn = (case natal_asc_sign of None \<Rightarrow> False | Some s \<Rightarrow> s \<in> set [9, 10]);
          st = comb_negative cusps planet_longs skip_saturn 6
                 ''comb_neg_saturn_h10'' ''comb_neg_saturn_asc'' st;
          skip_mars = (case natal_asc_sign of None \<Rightarrow> False | Some s \<Rightarrow> s \<in> set [0, 7]);
          st = comb_negative cusps planet_longs skip_mars 4
                 ''comb_neg_mars_h10'' ''comb_neg_mars_asc'' st
      in st)"

text \<open>
  Auxiliary for the proofs only: a score state whose total and whose every component
  array have \<open>N\<close> entries.
\<close>

definition shaped :: "nat \<Rightarrow> score_state \<Rightarrow> bool" where
  "shaped N st = (length (fst st) = N \<and> (\<forall>kv \<in> set (snd st). length (snd kv) = N))"

section \<open>SearchOrchestrator, vectorized strategy (core/election\_engine.py)\<close>

text \<open>Step 1 of \<open>find_elections\<close>: the time grid.\<close>

definition time_grid :: "datetime \<Rightarrow> datetime \<Rightarrow> int \<Rightarrow> error + datetime list" where
  "time_grid start_dt end_dt interval_minutes =
     (if interval_minutes * 60 = 0 then Inl ZeroDivisionError
      else
        (let total_time = end_dt - start_dt;
             total_seconds = real_of_int total_time / 1000000;
             total_intervals = py_int (total_seconds / real_of_int (interval_minutes * 60))
         in Inr (map (\<lambda>i. start_dt + i * interval_minutes * MINUTE) [0..total_intervals - 1])))"

text \<open>
  Step 5: the loop over the twelve signs that marks the instants whose topic-house ruler is
  in detriment or fall, or retrograde.
\<close>

definition bad_ruler_step ::
  "(int \<times> real list) list \<Rightarrow> (int \<times> real list) list \<Rightarrow> int list \<Rightarrow> int \<Rightarrow> bool list \<Rightarrow> bool list" where
  "bad_ruler_step longitudes speeds cusp_signs sign_idx is_bad_ruler =
     (let mask_times = map (\<lambda>s. s = sign_idx) cusp_signs
      in if \<not> np_any mask_times then is_bad_ruler
         else
           (let ruler_id = get_ruler_for_sign sign_idx;
                ruler_longs = take_mask mask_times (getitem longitudes ruler_id);
                ruler_speeds_local = take_mask mask_times (getitem speeds ruler_id);
                debility_local = mask_debility ruler_id ruler_longs;
                retro_local = map (\<lambda>v. v < 0) ruler_speeds_local
            in put_mask mask_times is_bad_ruler (vor debility_local retro_local)))"

text \<open>Step 6, rule 29: Mars or Saturn within 5 degrees of an angle.\<close>

definition malefic_on_angle ::
  "(int \<times> real list) list \<Rightarrow> real list \<Rightarrow> real list \<Rightarrow> nat \<Rightarrow> bool list" where
  "malefic_on_angle longitudes asc_arr mc_arr N =
     (let dsc_arr = map (\<lambda>a. fmod (a + 180) 360) asc_arr;
          ic_arr = map (\<lambda>a. fmod (a + 180) 360) mc_arr;
          angles = [asc_arr, mc_arr, dsc_arr, ic_arr];
          malefics = [4, 6];
          orb_angle = 5
      in fold (\<lambda>malefic_id acc.
                 let malefic_pos = getitem longitudes malefic_id
                 in fold (\<lambda>angle acc.
                            let diff = map2 (\<lambda>m a. \<bar>m - a\<bar>) malefic_pos angle;
                                diff = map (\<lambda>d. min d (360 - d)) diff;
                                mask_conj = map (\<lambda>d. d \<le> orb_angle) diff
                            in vor acc mask_conj)
                         angles acc)
              malefics (replicate N False))"

text \<open>
  Steps 4 to 7: the rejection mask. The natal filter is the constant all-false array
  \<open>is_bad_natal\<close>: the call of \<open>mask_hard_aspects_to_natal_lights\<close> is commented out
  in the source.
\<close>

definition rejection_mask ::
  "datetime list \<Rightarrow> (int \<times> real list) list \<Rightarrow> (int \<times> real list) list \<Rightarrow> real list list
   \<Rightarrow> real list list \<Rightarrow> ThemeConfig \<Rightarrow> bool list" where
  "rejection_mask times_arr longitudes speeds cusps ascmc config =
     (let N = length times_arr;
          moon_longs = getitem longitudes 1;
          sun_longs = getitem longitudes 0;
          mask_moon_sign = mask_signs moon_longs [7, 9];
          mask_ph = mask_phase sun_longs moon_longs ORB_MOON_PHASE;
          mask_voc = mask_void_of_course times_arr moon_longs longitudes;
          is_bad_moon = vor (vor mask_moon_sign mask_ph) mask_voc;
          cusp_longs = col (nat (target_house config - 1)) cusps;
          cusp_signs = get_sign_indices cusp_longs;
          is_bad_ruler =
            fold (bad_ruler_step longitudes speeds cusp_signs) [0, 1, 2, 3, 4, 5, 6, 7, 8, 9, 10, 11]
                 (replicate N False);
          asc_arr = col 0 ascmc;
          mc_arr = col 1 ascmc;
          is_malefic_on_angle = malefic_on_angle longitudes asc_arr mc_arr N;
          is_bad_natal = replicate N False
      in vor (vor (vor is_bad_moon is_bad_ruler) is_bad_natal) is_malefic_on_angle)"

text \<open>
  Step 8A: the two identical loops that gather, per instant, the identifier, longitude and
  speed of the ruler of a sign array (the Ascendant's signs, then the topic cusp's signs).
\<close>

definition gather_rulers ::
  "(int \<times> real list) list \<Rightarrow> (int \<times> real list) list \<Rightarrow> int list \<Rightarrow> nat
   \<Rightarrow> int list \<times> real list \<times> real list" where
  "gather_rulers longitudes speeds signs N =
     fold (\<lambda>sign_idx (ids, longs, spds).
             let msk = map (\<lambda>s. s = sign_idx) signs
             in if \<not> np_any msk then (ids, longs, spds)
                else
                  (let pid = get_ruler_for_sign sign_idx
                   in (fill_mask msk pid ids,
                       put_mask msk longs (take_mask msk (getitem longitudes pid)),
                       put_mask msk spds (take_mask msk (getitem speeds pid)))))
          [0, 1, 2, 3, 4, 5, 6, 7, 8, 9, 10, 11] (replicate N 0, zeros N, zeros N)"

record score_arrays =
  sa_moon :: "real list"
  sa_r_asc :: "real list"
  sa_r_h10 :: "real list"
  sa_natal :: "real list"
  sa_comb :: "real list"
  sa_total :: "real list"
  sa_details :: "(string \<times> real list) list"
  sa_positive :: "real list"
  sa_negative :: "real list"

definition dict_merge :: "('k \<times> 'v) list \<Rightarrow> ('k \<times> 'v) list \<Rightarrow> ('k \<times> 'v) list" where
  \<comment> \<open>\<open>{**d1, **d2}\<close>\<close>
  "dict_merge d1 d2 = fold (\<lambda>(k, v). AList.update k v) d2 d1"

text \<open>Step 8B and the aggregation of the positive and negative parts.\<close>

definition compute_scores ::
  "datetime list \<Rightarrow> (int \<times> real list) list \<Rightarrow> (int \<times> real list) list \<Rightarrow> real list list
   \<Rightarrow> real list list \<Rightarrow> ThemeConfig \<Rightarrow> (int \<times> real) list \<Rightarrow> int list \<Rightarrow> score_arrays" where
  "compute_scores times_arr longitudes speeds cusps ascmc config natal_chart bodies =
     (let N = length times_arr;
          moon_longs = getitem longitudes 1;
          sun_longs = getitem longitudes 0;
          cusp_signs = get_sign_indices (col (nat (target_house config - 1)) cusps);
          asc_signs = get_sign_indices (col 0 ascmc);
          (ruler_asc_ids, ruler_asc_longs, ruler_asc_speeds) = gather_rulers longitudes speeds asc_signs N;
          (ruler_h10_ids, ruler_h10_longs, ruler_h10_speeds) = gather_rulers longitudes speeds cusp_signs N;
          planet_longs_dict = map (\<lambda>pid. (pid, getitem longitudes pid)) bodies;
          (score_moon, details_moon) =
            calculate_moon_score times_arr moon_longs sun_longs planet_longs_dict cusps ascmc;
          (score_r_asc, details_r_asc) =
            calculate_ruler_score times_arr ''ASC'' ruler_asc_longs ruler_asc_ids sun_longs
              planet_longs_dict cusps (Some ruler_asc_speeds);
          (score_r_h10, details_r_h10) =
            calculate_ruler_score times_arr ''H10'' ruler_h10_longs ruler_h10_ids sun_longs
              planet_longs_dict cusps (Some ruler_h10_speeds);
          (score_natal, details_natal) = calculate_natal_score times_arr ascmc cusps natal_chart;
          natal_asc_sign = None;
          (score_comb, details_comb) =
            calculate_combinations_score times_arr ruler_asc_ids ruler_asc_longs
              ruler_h10_ids ruler_h10_longs planet_longs_dict ascmc cusps natal_asc_sign;
          total_score = vadd (vadd (vadd (vadd score_moon score_r_asc) score_r_h10) score_natal) score_comb;
          all_details =
            dict_merge (dict_merge (dict_merge (dict_merge details_moon details_r_asc) details_r_h10)
                          details_natal) details_comb;
          score_positive = fold (\<lambda>(key, arr) acc. vadd acc (map (\<lambda>x. max x 0) arr)) all_details (zeros N);
          score_negative = fold (\<lambda>(key, arr) acc. vadd acc (map (\<lambda>x. min x 0) arr)) all_details (zeros N)
      in \<lparr> sa_moon = score_moon, sa_r_asc = score_r_asc, sa_r_h10 = score_r_h10,
           sa_natal = score_natal, sa_comb = score_comb, sa_total = total_score,
           sa_details = all_details, sa_positive = score_positive,
           sa_negative = score_negative \<rparr>)"

record candidate =
  timestamp :: datetime
  is_valid :: bool
  flags :: "string list"
  moon_sign :: int
  score_total :: real
  score_general :: real
  score_natal :: real
  score_positive :: real
  score_negative :: real
  score_normalized :: real
  norm_general :: real
  norm_natal :: real
  label :: string
  stars :: int
  score_moon :: real
  score_r_asc :: real
  score_r_h10 :: real
  score_comb :: real
  components :: "(string \<times> real) list"

text \<open>The body of the loop over \<open>indices_to_process\<close>: one row of the result.\<close>

definition build_row ::
  "datetime list \<Rightarrow> real list \<Rightarrow> bool list \<Rightarrow> score_arrays \<Rightarrow> nat \<Rightarrow> candidate" where
  "build_row times_arr moon_longs is_rejected sc idx =
     (let is_valid_moment = \<not> is_rejected ! idx;
          t = times_arr ! idx;
          moon_sign_idx = \<lfloor>moon_longs ! idx / 30\<rfloor>;
          comps = map (\<lambda>(k, v). (k, v ! idx))
                      (filter (\<lambda>(k, v). \<bar>v ! idx\<bar> > 1 / 1000) (sa_details sc));
          s_natal = sa_natal sc ! idx;
          s_general = sa_total sc ! idx - s_natal;
          MAX_GEN = 30;
          MAX_NAT = 10;
          norm_gen = (s_general / MAX_GEN) * 100;
          norm_gen = min (max norm_gen 0) 100;
          norm_nat = (s_natal / MAX_NAT) * 100;
          norm_nat = min (max norm_nat 0) 100;
          score_hybrid = (norm_gen * (70 / 100)) + (norm_nat * (30 / 100));
          (lbl, strs) =
            (if score_hybrid \<ge> 80 then (''Excelente'', 5)
             else if score_hybrid \<ge> 60 then (''Muy Bueno'', 4)
             else if score_hybrid \<ge> 40 then (''Bueno'', 3)
             else if score_hybrid \<ge> 20 then (''Regular'', 2)
             else (''Pobre'', 1));
          flgs = (if \<not> is_valid_moment then [''rejected''] else [])
      in \<lparr> timestamp = t, is_valid = is_valid_moment, flags = flgs, moon_sign = moon_sign_idx,
           score_total = sa_total sc ! idx, score_general = s_general, score_natal = s_natal,
           score_positive = sa_positive sc ! idx, score_negative = sa_negative sc ! idx,
           score_normalized = py_round score_hybrid 1, norm_general = py_round norm_gen 1,
           norm_natal = py_round norm_nat 1, label = lbl, stars = strs,
           score_moon = sa_moon sc ! idx, score_r_asc = sa_r_asc sc ! idx,
           score_r_h10 = sa_r_h10 sc ! idx, score_comb = sa_comb sc ! idx,
           components = comps \<rparr>)"

text \<open>
  \<open>find_elections\<close>. The parameters with defaults are explicit; \<open>natal_chart\<close> is
  \<open>None\<close> when the caller passes none. The percentage logged after step 7 divides by
  \<open>len(times_arr)\<close>.
\<close>

definition find_elections ::
  "swe \<Rightarrow> datetime \<Rightarrow> datetime \<Rightarrow> real \<Rightarrow> real \<Rightarrow> (int \<times> real) list option \<Rightarrow> string \<Rightarrow> int \<Rightarrow> bool
   \<Rightarrow> error + candidate list" where
  "find_elections sw start_dt end_dt lat lon natal_chart topic interval_minutes return_all =
     (let natal_chart = (case natal_chart of None \<Rightarrow> [] | Some c \<Rightarrow> c);
          config = get_theme_config topic
      in case time_grid start_dt end_dt interval_minutes of
           Inl e \<Rightarrow> Inl e
         | Inr times_arr \<Rightarrow>
             (let bodies = [0, 1, 2, 3, 4, 5, 6, 10]
              in case calculate_positions sw times_arr (Some bodies) of
                   Inl e \<Rightarrow> Inl e
                 | Inr (positions, logged) \<Rightarrow>
                     (let longitudes = get_longitudes positions;
                          speeds = get_speeds positions
                      in case calculate_houses sw times_arr lat lon of
                           Inl e \<Rightarrow> Inl e
                         | Inr (cusps, ascmc) \<Rightarrow>
                             (let is_rejected =
                                    rejection_mask times_arr longitudes speeds cusps ascmc config
                              in if length times_arr = 0 then Inl ZeroDivisionError
                                 else
                                   (let sc = compute_scores times_arr longitudes speeds cusps ascmc
                                               config natal_chart bodies;
                                        N = length times_arr;
                                        indices_to_process =
                                          (if return_all then [0..<N]
                                           else filter (\<lambda>i. \<not> is_rejected ! i) [0..<N])
                                    in Inr (map (build_row times_arr (getitem longitudes 1)
                                                   is_rejected sc)
                                                indices_to_process))))))"

text \<open>
  Auxiliary for stating the results: the call of \<open>calculate_combinations_score\<close>
  exactly as \<open>find_elections\<close> makes it (step 8B.5), with the gathered rulers, the whole
  cusp matrix and \<open>natal_asc_sign = None\<close>.
\<close>

definition comb_call ::
  "datetime list \<Rightarrow> (int \<times> real list) list \<Rightarrow> (int \<times> real list) list \<Rightarrow> real list list
   \<Rightarrow> real list list \<Rightarrow> ThemeConfig \<Rightarrow> int list \<Rightarrow> score_state" where
  "comb_call times_arr longitudes speeds cusps ascmc config bodies =
     (let N = length times_arr;
          ra = gather_rulers longitudes speeds (get_sign_indices (col 0 ascmc)) N;
          rh = gather_rulers longitudes speeds
                 (get_sign_indices (col (nat (target_house config - 1)) cusps)) N
      in calculate_combinations_score times_arr (fst ra) (fst (snd ra)) (fst rh) (fst (snd rh))
           (map (\<lambda>pid. (pid, getitem longitudes pid)) bodies) ascmc cusps None)"

section \<open>ContextualNormalizer (utils/scc\_calculator.py)\<close>

definition ENRAIZAMIENTO_MIN :: real where "ENRAIZAMIENTO_MIN = - 6"
definition ENRAIZAMIENTO_MAX :: real where "ENRAIZAMIENTO_MAX = 10"
definition ENRAIZAMIENTO_RANGO :: real where
  "ENRAIZAMIENTO_RANGO = ENRAIZAMIENTO_MAX - ENRAIZAMIENTO_MIN"
definition PESO_ABSOLUTO :: real where "PESO_ABSOLUTO = 8 / 10"
definition PESO_RELATIVO :: real where "PESO_RELATIVO = 2 / 10"
definition UMBRAL_MINIMO_RECOMENDABLE :: real where "UMBRAL_MINIMO_RECOMENDABLE = 40"

definition calcular_componente_absoluto :: "real \<Rightarrow> real" where
  "calcular_componente_absoluto puntos =
     (if puntos \<le> ENRAIZAMIENTO_MIN then 0
      else if puntos \<ge> ENRAIZAMIENTO_MAX then 100
      else let ratio = (puntos - ENRAIZAMIENTO_MIN) / ENRAIZAMIENTO_RANGO in ratio * 100)"

text \<open>
  The \<open>for i, valor in enumerate(valores_ordenados)\<close> loop: the remaining
  enumerated pairs are the last argument, \<open>vs\<close> is the whole sorted list (read at
  \<open>i - 1\<close>, only where \<open>i > 0\<close>), falling off the end returns 100.
\<close>

fun percentil_loop :: "real \<Rightarrow> real list \<Rightarrow> nat \<Rightarrow> (nat \<times> real) list \<Rightarrow> real" where
  "percentil_loop puntos vs n [] = 100"
| "percentil_loop puntos vs n ((i, valor) # rest) =
     (if puntos \<le> valor then
        (if i = 0 then 0
         else if puntos = valor then (real i / real n) * 100
         else (let prev_valor = vs ! (i - 1) in
               if valor \<noteq> prev_valor then
                 (let interpolacion = (puntos - prev_valor) / (valor - prev_valor)
                  in ((real (i - 1) + interpolacion) / real n) * 100)
               else (real i / real n) * 100))
      else percentil_loop puntos vs n rest)"

definition calcular_componente_relativo :: "real \<Rightarrow> real list \<Rightarrow> real" where
  "calcular_componente_relativo puntos valores_referencia =
     (if valores_referencia = [] then 50
      else let valores_ordenados = sort valores_referencia;
               n = length valores_ordenados
           in percentil_loop puntos valores_ordenados n (enumerate 0 valores_ordenados))"

definition estimar_percentil_aproximado :: "real \<Rightarrow> real" where
  "estimar_percentil_aproximado puntos =
     (if puntos \<ge> 3 then 95
      else if puntos \<ge> 2 then 85
      else if puntos \<ge> 1 then 70
      else if puntos \<ge> 0 then 50
      else if puntos \<ge> - 2 then 30
      else 10)"

datatype categoria =
  NO_RECOMENDABLE | EXCEPCIONAL | SOBRE_PROMEDIO | PROMEDIO | DEBAJO_PROMEDIO | LIMITADO

definition asignar_categoria_scc :: "real \<Rightarrow> bool \<Rightarrow> categoria" where
  "asignar_categoria_scc scc recomendable =
     (if \<not> recomendable then NO_RECOMENDABLE
      else if scc \<ge> 75 then EXCEPCIONAL
      else if scc \<ge> 65 then SOBRE_PROMEDIO
      else if scc \<ge> 50 then PROMEDIO
      else if scc \<ge> 40 then DEBAJO_PROMEDIO
      else LIMITADO)"

datatype motivo = ABSOLUTO_MUY_BAJO | SCC_BAJO_UMBRAL real | CALIDAD_INSUFICIENTE

definition get_motivo_no_recomendable :: "real \<Rightarrow> real \<Rightarrow> motivo" where
  "get_motivo_no_recomendable scc absoluto_pct =
     (if absoluto_pct < 30 then ABSOLUTO_MUY_BAJO
      else if scc < UMBRAL_MINIMO_RECOMENDABLE then SCC_BAJO_UMBRAL scc
      else CALIDAD_INSUFICIENTE)"

record scc_data =
  scc :: real
  absoluto_pct :: real
  relativo_pct :: real
  recomendable :: bool
  categoria :: categoria
  motivo_no_recomendable :: "motivo option"

text \<open>\<open>valores_referencia\<close> is \<open>None\<close> when the caller passes no batch.\<close>

definition calcular_scc :: "real \<Rightarrow> real list option \<Rightarrow> scc_data" where
  "calcular_scc enraizamiento_puntos valores_referencia =
     (let absoluto = calcular_componente_absoluto enraizamiento_puntos;
          relativo =
            (case valores_referencia of
               Some vr \<Rightarrow>
                 if vr \<noteq> [] \<and> length vr > 1
                 then calcular_componente_relativo enraizamiento_puntos vr
                 else estimar_percentil_aproximado enraizamiento_puntos
             | None \<Rightarrow> estimar_percentil_aproximado enraizamiento_puntos);
          scc_val = (absoluto * PESO_ABSOLUTO) + (relativo * PESO_RELATIVO);
          recom = (scc_val \<ge> UMBRAL_MINIMO_RECOMENDABLE);
          cat = asignar_categoria_scc scc_val recom
      in \<lparr> scc = py_round scc_val 1,
           absoluto_pct = py_round absoluto 1,
           relativo_pct = py_round relativo 1,
           recomendable = recom,
           categoria = cat,
           motivo_no_recomendable =
             (if recom then None else Some (get_motivo_no_recomendable scc_val absoluto)) \<rparr>)"

text \<open>
  Auxiliary for the proofs only: the fraction of the step between two neighbouring sorted
  values that the loop adds (1 at the upper value itself).
\<close>

definition interp :: "real \<Rightarrow> real \<Rightarrow> real \<Rightarrow> real" where
  "interp p prev v = (if p = v then 1 else (p - prev) / (v - prev))"

section \<open>SearchOrchestrator, legacy two-phase strategy (core/algoritmo\_busqueda.py)\<close>

text \<open>
  The per-instant evaluators rest on the legacy astrology classes and are parameters:
  \<open>fase1_apto\<close> is \<open>procesar_momento_fase1_estatico\<close>, and \<open>calcular_avanzado\<close> is
  \<open>EnraizamientoCalculator.calcular_enraizamiento_avanzado\<close>, which returns a result
  dictionary or \<open>None\<close> (it catches its own exceptions).
\<close>

definition MAX_RESULTADOS_FINALES :: nat where "MAX_RESULTADOS_FINALES = 25"
definition UMBRAL_ENRAIZAMIENTO_MINIMO :: real where "UMBRAL_ENRAIZAMIENTO_MINIMO = 25"

record fase1_puntos =
  puntos_luna :: real
  puntos_regente_asc :: real
  puntos_regente_casa10 :: real
  puntos_combinaciones_positivas :: real
  puntos_combinaciones_negativas :: real

record detalles =
  fase1 :: "fase1_puntos option"
  enraizamiento_puro_puntos_total :: "real option"

record resultado =
  apto :: bool
  enraizamiento_score :: real
  calidad_score :: real
  res_detalles :: detalles

record momento_data =
  fecha_hora :: datetime
  tema_consulta :: string
  md_enraizamiento_score :: real
  md_calidad_score :: real
  enraizamiento_pct :: real
  calidad_pct :: real
  puntaje_ranking :: real
  puntuacion_total :: real
  md_detalles :: detalles

record momento_con_scc = momento_data +
  m_scc :: real
  scc_absoluto_pct :: real
  scc_relativo_pct :: real
  scc_categoria :: categoria
  scc_recomendable :: bool

definition calcular_puntaje_ranking :: "detalles \<Rightarrow> real" where
  "calcular_puntaje_ranking det =
     (case fase1 det of
        None \<Rightarrow> 0
      | Some f \<Rightarrow>
          (let puntaje_total = puntos_luna f + puntos_regente_asc f + puntos_regente_casa10 f
                               + puntos_combinaciones_positivas f + puntos_combinaciones_negativas f;
               puntos_maximos = 32;
               puntos_minimos = - 2
           in if puntaje_total \<le> puntos_minimos then 0
              else if puntaje_total \<ge> puntos_maximos then 100
              else (let ratio = (puntaje_total - puntos_minimos) / (puntos_maximos - puntos_minimos)
                    in max 0 (min 100 (ratio * 100)))))"

definition calcular_puntuacion_total_combinada :: "real \<Rightarrow> real \<Rightarrow> real" where
  "calcular_puntuacion_total_combinada es cs = py_round ((es * 80) + (cs * 20)) 2"

definition procesar_momento_paralelo ::
  "(datetime \<Rightarrow> resultado option) \<Rightarrow> string \<Rightarrow> datetime \<Rightarrow> momento_data option" where
  "procesar_momento_paralelo calcular_avanzado tema momento =
     (case calcular_avanzado momento of
        None \<Rightarrow> None
      | Some res \<Rightarrow>
          if apto res then
            (let e_pct = enraizamiento_score res * 100;
                 c_pct = calidad_score res * 100
             in if e_pct \<ge> UMBRAL_ENRAIZAMIENTO_MINIMO then
                  Some \<lparr> fecha_hora = momento, tema_consulta = tema,
                         md_enraizamiento_score = enraizamiento_score res,
                         md_calidad_score = calidad_score res,
                         enraizamiento_pct = e_pct, calidad_pct = c_pct,
                         puntaje_ranking = calcular_puntaje_ranking (res_detalles res),
                         puntuacion_total =
                           calcular_puntuacion_total_combinada (enraizamiento_score res)
                             (calidad_score res),
                         md_detalles = res_detalles res \<rparr>
                else None)
          else None)"

definition extraer_enraizamiento_puro :: "momento_data \<Rightarrow> real" where
  "extraer_enraizamiento_puro momento =
     (case enraizamiento_puro_puntos_total (md_detalles momento) of
        Some p \<Rightarrow> p
      | None \<Rightarrow>
          (let score = md_enraizamiento_score momento
           in if 0 \<le> score \<and> score \<le> 1 then (score - 1 / 2) * 8 else 0))"

definition procesar_momentos_con_scc :: "momento_data list \<Rightarrow> momento_con_scc list" where
  "procesar_momentos_con_scc momentos =
     (let valores_enraizamiento = map extraer_enraizamiento_puro momentos
      in map (\<lambda>momento.
                let d = calcular_scc (extraer_enraizamiento_puro momento) (Some valores_enraizamiento)
                in momento_data.extend momento
                     \<lparr> m_scc = scc d, scc_absoluto_pct = absoluto_pct d,
                       scc_relativo_pct = relativo_pct d, scc_categoria = categoria d,
                       scc_recomendable = recomendable d \<rparr>)
             momentos)"

definition sort_key_scc :: "momento_con_scc \<Rightarrow> real \<times> real" where
  "sort_key_scc x = (m_scc x, puntuacion_total x)"

text \<open>
  Phase 2. \<open>ThreadPoolExecutor(max_workers=0)\<close> raises \<open>ValueError\<close>, which is what
  \<open>min(4, len(momentos_prometedores))\<close> gives on an empty list. The futures are
  collected with \<open>as_completed\<close>, in the order they finish: \<open>orden\<close> is that order,
  a permutation of the moments submitted. \<open>list.sort(key, reverse=True)\<close> is stable.
\<close>

definition fase_2_enraizamiento ::
  "(datetime \<Rightarrow> resultado option) \<Rightarrow> string \<Rightarrow> (datetime list \<Rightarrow> datetime list)
   \<Rightarrow> datetime list \<Rightarrow> error + momento_con_scc list" where
  "fase_2_enraizamiento calcular_avanzado tema orden momentos_prometedores =
     (let max_workers = min 4 (length momentos_prometedores)
      in if max_workers \<le> 0 then Inl ValueError
         else
           (let completados = orden momentos_prometedores;
                momentos_enraizados =
                  List.map_filter (procesar_momento_paralelo calcular_avanzado tema) completados;
                momentos_con_scc = procesar_momentos_con_scc momentos_enraizados;
                ordenados = rev (sort_key sort_key_scc (rev momentos_con_scc))
            in Inr (take MAX_RESULTADOS_FINALES ordenados)))"

definition round_minute :: "datetime \<Rightarrow> datetime" where
  \<comment> \<open>\<open>t.replace(second=0, microsecond=0)\<close>\<close>
  "round_minute t = t - t mod MINUTE"

text \<open>
  \<open>_eliminar_duplicados_por_tiempo\<close>: defined in the class, called from nowhere.
\<close>

definition eliminar_duplicados_por_tiempo :: "momento_data list \<Rightarrow> momento_data list" where
  "eliminar_duplicados_por_tiempo momentos =
     map snd
       (fold (\<lambda>momento momentos_por_tiempo.
                let tiempo_redondeado = round_minute (fecha_hora momento)
                in case map_of momentos_por_tiempo tiempo_redondeado of
                     Some momento_existente \<Rightarrow>
                       if puntuacion_total momento > puntuacion_total momento_existente
                       then AList.update tiempo_redondeado momento momentos_por_tiempo
                       else if puntuacion_total momento = puntuacion_total momento_existente
                               \<and> md_enraizamiento_score momento > md_enraizamiento_score momento_existente
                       then AList.update tiempo_redondeado momento momentos_por_tiempo
                       else momentos_por_tiempo
                   | None \<Rightarrow> AList.update tiempo_redondeado momento momentos_por_tiempo)
             momentos [])"

text \<open>Phase 1: the grid every 30 minutes, end included.\<close>

function generar_momentos_fase1 :: "datetime \<Rightarrow> datetime \<Rightarrow> datetime list" where
  "generar_momentos_fase1 fecha_actual fecha_fin =
     (if fecha_actual \<le> fecha_fin
      then fecha_actual # generar_momentos_fase1 (fecha_actual + 30 * MINUTE) fecha_fin
      else [])"
  by pat_completeness auto
termination
  by (relation "measure (\<lambda>(a, f). nat (f - a + 1))") (auto simp add: MINUTE_def)

declare generar_momentos_fase1.simps [simp del]

text \<open>
  \<open>_fase_1_filtro_basico\<close>: \<open>mp.cpu_count()\<close> is at least 1, so
  \<open>num_procesos = min(cores_disponibles, len(momentos_fase1))\<close> is 0 exactly when no
  moment was generated, and \<open>mp.Pool(processes=0)\<close> raises \<open>ValueError\<close>.
\<close>

definition fase_1_filtro_basico ::
  "(datetime \<Rightarrow> bool) \<Rightarrow> datetime \<Rightarrow> datetime \<Rightarrow> error + datetime list" where
  "fase_1_filtro_basico fase1_apto fecha_inicio fecha_fin =
     (let momentos_fase1 = generar_momentos_fase1 fecha_inicio fecha_fin
      in if length momentos_fase1 = 0 then Inl ValueError
         else Inr (filter fase1_apto momentos_fase1))"


section \<open>A concrete provider for the examples\<close>

text \<open>
  A stand-in for Swiss Ephemeris, used only to evaluate the model on concrete inputs:
  time is counted in hours, the houses are twelve equal sectors from an Ascendant at 0
  (Midheaven 270), every body is direct, and the bodies stand still except the Moon,
  which is at 45 before hour 1 and at 215 (Scorpio) from then on. Bodies other than
  0 to 6 and 10 are not available: the call raises.
\<close>

definition demo_longitude :: "real \<Rightarrow> int \<Rightarrow> real" where
  "demo_longitude jd body =
     (if body = 0 then 190
      else if body = 1 then (if jd < 1 then 45 else 215)
      else if body = 2 then 50
      else if body = 3 then 200
      else if body = 4 then 100
      else if body = 5 then 280
      else if body = 6 then 195
      else 0)"

definition demo_swe :: swe where
  "demo_swe =
     \<lparr> julday = (\<lambda>day_ordinal hour_decimal. real_of_int day_ordinal * 24 + hour_decimal),
       calc_ut = (\<lambda>jd body.
          if body \<in> set [0, 1, 2, 3, 4, 5, 6, 10]
          then Some \<lparr> p_lon = demo_longitude jd body, p_lat = 0, p_dist = 1,
                      p_speed_lon = 1, p_speed_lat = 0, p_speed_dist = 0 \<rparr>
          else None),
       houses = (\<lambda>jd lat lon.
          Some ([0, 30, 60, 90, 120, 150, 180, 210, 240, 270, 300, 330],
                [0, 270, 0, 0, 0, 0, 0, 0, 0, 0])) \<rparr>"

text \<open>The arrays the example provider yields on the grid of hours 0 and 1.\<close>

definition demo_position :: "real \<Rightarrow> position" where
  "demo_position l =
     \<lparr> p_lon = l, p_lat = 0, p_dist = 1, p_speed_lon = 1, p_speed_lat = 0, p_speed_dist = 0 \<rparr>"

definition demo_longs :: "(int \<times> real list) list" where
  "demo_longs = [(0, [190, 190]), (1, [45, 215]), (2, [50, 50]), (3, [200, 200]),
                 (4, [100, 100]), (5, [280, 280]), (6, [195, 195]), (10, [0, 0])]"

definition demo_speeds :: "(int \<times> real list) list" where
  "demo_speeds = [(0, [1, 1]), (1, [1, 1]), (2, [1, 1]), (3, [1, 1]),
                  (4, [1, 1]), (5, [1, 1]), (6, [1, 1]), (10, [1, 1])]"

definition demo_cusps :: "real list list" where
  "demo_cusps = [[0, 30, 60, 90, 120, 150, 180, 210, 240, 270, 300, 330],
                 [0, 30, 60, 90, 120, 150, 180, 210, 240, 270, 300, 330]]"

definition demo_ascmc :: "real list list" where
  "demo_ascmc = [[0, 270, 0, 0, 0, 0, 0, 0, 0, 0], [0, 270, 0, 0, 0, 0, 0, 0, 0, 0]]"


section \<open>Properties\<close>

lemma DETRIMENT_MAP_eval:
  "DETRIMENT_MAP p =
     (if p = 4 then Some [6, 1] else if p = 3 then Some [7, 0] else if p = 2 then Some [8, 11]
      else if p = 1 then Some [9] else if p = 0 then Some [10] else if p = 5 then Some [2, 5]
      else if p = 6 then Some [3, 4] else None)"
  by (simp add: DETRIMENT_MAP_def RULER_MAP_def Let_def)

lemma FALL_MAP_eval:
  "FALL_MAP p =
     (if p = 0 then Some 6 else if p = 1 then Some 7 else if p = 2 then Some 11
      else if p = 3 then Some 5 else if p = 4 then Some 3 else if p = 5 then Some 9
      else if p = 6 then Some 0 else None)"
  by (simp add: FALL_MAP_def EXALTATION_MAP_def)

lemma dignity_debility_signs_disjoint:
  "set (good_signs p) \<inter> set (bad_signs p) = {}"
  by (simp add: good_signs_def bad_signs_def DETRIMENT_MAP_eval FALL_MAP_eval
      RULER_MAP_def EXALTATION_MAP_def Let_def)

lemma dignity_debility_pointwise:
  "\<not> (sign_of l \<in> set (good_signs p) \<and> sign_of l \<in> set (bad_signs p))"
  using dignity_debility_signs_disjoint [of p] by blast

text \<open>
  Claim C7. For every body identifier and every longitude array, the dignity mask and the
  debility mask are never both true at the same position (their pointwise conjunction is
  false everywhere), because under the rulership, exaltation, detriment and fall tables
  no sign is both in the body's domicile/exaltation list and in its detriment/fall list.
\<close>

theorem dignity_debility_never_both:
  "map2 (\<and>) (mask_dignity p L) (mask_debility p L) = replicate (length L) False
   \<and> set (good_signs p) \<inter> set (bad_signs p) = {}"
proof
  have "map2 (\<and>) (mask_dignity p L) (mask_debility p L)
        = map (\<lambda>l. sign_of l \<in> set (good_signs p) \<and> sign_of l \<in> set (bad_signs p)) L"
    by (simp add: mask_dignity_def mask_debility_def isin_def get_sign_indices_def
        map2_map_map o_def)
  also have "\<dots> = map (\<lambda>l. False) L"
    using dignity_debility_pointwise by simp
  also have "\<dots> = replicate (length L) False"
    by (simp add: map_replicate_const)
  finally show "map2 (\<and>) (mask_dignity p L) (mask_debility p L) = replicate (length L) False" .
  show "set (good_signs p) \<inter> set (bad_signs p) = {}"
    by (rule dignity_debility_signs_disjoint)
qed

subsection \<open>Contextual score\<close>



lemma enumerate_drop_step:
  "k < length vs \<Longrightarrow> enumerate k (drop k vs) = (k, vs ! k) # enumerate (Suc k) (drop (Suc k) vs)"
  by (simp add: Cons_nth_drop_Suc [symmetric])

lemma interp_bounds: "prev < p \<Longrightarrow> p \<le> v \<Longrightarrow> 0 \<le> interp p prev v \<and> interp p prev v \<le> 1"
  by (simp add: interp_def)

lemma interp_mono: "prev < b \<Longrightarrow> b < a \<Longrightarrow> a \<le> v \<Longrightarrow> interp b prev v \<le> interp a prev v"
  by (simp add: interp_def divide_right_mono)

lemma percentil_loop_hit:
  assumes "k < length vs" "0 < k" "vs ! (k - 1) < p" "p \<le> vs ! k"
  shows "percentil_loop p vs n (enumerate k (drop k vs))
         = (real (k - 1) + interp p (vs ! (k - 1)) (vs ! k)) / real n * 100"
proof (cases "p = vs ! k")
  case True
  have "real (k - 1) + 1 = real k" using assms(2) by simp
  with True assms show ?thesis
    by (simp add: enumerate_drop_step interp_def)
next
  case False
  with assms have "vs ! k \<noteq> vs ! (k - 1)" by auto
  with False assms show ?thesis
    by (simp add: enumerate_drop_step interp_def Let_def)
qed

lemma percentil_loop_miss:
  "k < length vs \<Longrightarrow> vs ! k < p \<Longrightarrow>
   percentil_loop p vs n (enumerate k (drop k vs))
   = percentil_loop p vs n (enumerate (Suc k) (drop (Suc k) vs))"
  by (simp add: enumerate_drop_step)

lemma percentil_loop_first:
  "0 < length vs \<Longrightarrow> p \<le> vs ! 0 \<Longrightarrow> percentil_loop p vs n (enumerate 0 (drop 0 vs)) = 0"
  using enumerate_drop_step [of 0 vs] by simp

lemma scale_mono: "0 < n \<Longrightarrow> x \<le> y \<Longrightarrow> x / real n * 100 \<le> y / real n * 100"
  by (simp add: divide_right_mono)

lemma percentil_loop_lower:
  "k \<le> length vs \<Longrightarrow> n = length vs \<Longrightarrow> (k = 0 \<or> vs ! (k - 1) < a) \<Longrightarrow>
   real (k - 1) / real n * 100 \<le> percentil_loop a vs n (enumerate k (drop k vs))"
proof (induction "length vs - k" arbitrary: k)
  case 0
  then have "k = length vs" by simp
  with 0 show ?case by (cases "length vs") (simp_all add: divide_simps)
next
  case (Suc m)
  then have k: "k < length vs" by simp
  have npos: "0 < n" using k Suc.prems by auto
  show ?case
  proof (cases "a \<le> vs ! k")
    case True
    show ?thesis
    proof (cases "k = 0")
      case True
      with \<open>a \<le> vs ! k\<close> k percentil_loop_first [of vs a n] show ?thesis by simp
    next
      case False
      with Suc.prems have prev: "vs ! (k - 1) < a" by simp
      have "real (k - 1) \<le> real (k - 1) + interp a (vs ! (k - 1)) (vs ! k)"
        using interp_bounds [OF prev True] by simp
      from scale_mono [OF npos this] show ?thesis
        using percentil_loop_hit [OF k _ prev True, of n] False by simp
    qed
  next
    case False
    then have lt: "vs ! k < a" by simp
    have "real (Suc k - 1) / real n * 100 \<le> percentil_loop a vs n (enumerate (Suc k) (drop (Suc k) vs))"
      using Suc.hyps(1) [of "Suc k"] Suc.hyps(2) k Suc.prems lt by simp
    moreover have "real (k - 1) / real n * 100 \<le> real (Suc k - 1) / real n * 100"
      by (rule scale_mono [OF npos]) simp
    ultimately show ?thesis using percentil_loop_miss [OF k lt, of n] by simp
  qed
qed

lemma percentil_loop_mono:
  "k \<le> length vs \<Longrightarrow> n = length vs \<Longrightarrow> (k = 0 \<or> vs ! (k - 1) < b) \<Longrightarrow> b < a \<Longrightarrow>
   percentil_loop b vs n (enumerate k (drop k vs)) \<le> percentil_loop a vs n (enumerate k (drop k vs))"
proof (induction "length vs - k" arbitrary: k)
  case 0
  then show ?case by simp
next
  case (Suc m)
  then have k: "k < length vs" by simp
  have npos: "0 < n" using k Suc.prems by auto
  have preva: "k = 0 \<or> vs ! (k - 1) < a" using Suc.prems by auto
  show ?case
  proof (cases "b \<le> vs ! k")
    case ble: True
    show ?thesis
    proof (cases "k = 0")
      case True
      have "0 \<le> percentil_loop a vs n (enumerate k (drop k vs))"
        using percentil_loop_lower [of k vs n a] Suc.prems True by simp
      with ble True k percentil_loop_first [of vs b n] show ?thesis by simp
    next
      case False
      then have kpos: "0 < k" by simp
      with Suc.prems have prevb: "vs ! (k - 1) < b" by simp
      note vb = percentil_loop_hit [OF k kpos prevb ble, of n]
      have r: "real (k - 1) + 1 = real k" using kpos by simp
      show ?thesis
      proof (cases "a \<le> vs ! k")
        case ale: True
        have preva': "vs ! (k - 1) < a" using prevb \<open>b < a\<close> by simp
        note va = percentil_loop_hit [OF k kpos preva' ale, of n]
        have "real (k - 1) + interp b (vs ! (k - 1)) (vs ! k)
              \<le> real (k - 1) + interp a (vs ! (k - 1)) (vs ! k)"
          using interp_mono [OF prevb \<open>b < a\<close> ale] by simp
        from scale_mono [OF npos this] show ?thesis using va vb by simp
      next
        case False
        then have lt: "vs ! k < a" by simp
        have lo: "real k / real n * 100 \<le> percentil_loop a vs n (enumerate (Suc k) (drop (Suc k) vs))"
          using percentil_loop_lower [of "Suc k" vs n a] k Suc.prems lt by simp
        have "real (k - 1) + interp b (vs ! (k - 1)) (vs ! k) \<le> real k"
          using interp_bounds [OF prevb ble] r by linarith
        from scale_mono [OF npos this] show ?thesis
          using lo vb percentil_loop_miss [OF k lt, of n] by simp
      qed
    qed
  next
    case False
    then have lt: "vs ! k < b" by simp
    then have lta: "vs ! k < a" using \<open>b < a\<close> by simp
    show ?thesis
      using Suc.hyps(1) [of "Suc k"] Suc.hyps(2) k Suc.prems lt
        percentil_loop_miss [OF k lt, of n] percentil_loop_miss [OF k lta, of n] by simp
  qed
qed

text \<open>
  Claim C6. Percentile (relative) normalization is monotonic: for every reference batch
  \<open>V\<close> and raw totals \<open>raw_a > raw_b\<close> evaluated against the same batch,
  \<open>relative_pct raw_a V \<ge> relative_pct raw_b V\<close>. It holds for
  \<open>_calcular_componente_relativo\<close> on every batch (the empty one included) and for
  the fallback ladder used when the batch has fewer than two points.
\<close>

theorem relative_pct_monotonic:
  "raw_b < raw_a \<Longrightarrow>
     calcular_componente_relativo raw_b V \<le> calcular_componente_relativo raw_a V
     \<and> estimar_percentil_aproximado raw_b \<le> estimar_percentil_aproximado raw_a"
  using percentil_loop_mono [of 0 "sort V" "length (sort V)" raw_b raw_a]
  by (simp add: calcular_componente_relativo_def Let_def estimar_percentil_aproximado_def)

theorem relative_pct_monotonic_witness:
  "(2::real) < 5 / 2
   \<and> calcular_componente_relativo 2 [1, 2, 2, 3] = 25
   \<and> calcular_componente_relativo (5 / 2) [1, 2, 2, 3] = 125 / 2
   \<and> calcular_componente_relativo 2 [1, 2, 2, 3] \<le> calcular_componente_relativo (5 / 2) [1, 2, 2, 3]"
  using relative_pct_monotonic [of 2 "5 / 2" "[1, 2, 2, 3]"]
  by (simp add: calcular_componente_relativo_def enumerate_eq_zip upt_rec)

subsection \<open>EphemerisAdapter\<close>

lemma those_map_Some_iff:
  "(those (map f xs) = Some ys) = ((\<forall>x\<in>set xs. f x \<noteq> None) \<and> ys = map (\<lambda>x. the (f x)) xs)"
  by (induction xs arbitrary: ys) (auto split: option.splits)

lemma those_map_None_iff:
  "(those (map f xs) = None) = (\<exists>x\<in>set xs. f x = None)"
  by (induction xs) (auto split: option.splits)

lemma calculate_bodies_lookup:
  "map_of (fst (calculate_bodies sw jds bodies (results, logged))) b =
     (if b \<in> set bodies
      then Some (case those (map (\<lambda>jd. calc_ut sw jd b) jds) of
                   Some body_data \<Rightarrow> body_data
                 | None \<Rightarrow> replicate (length jds) zero_position)
      else map_of results b)"
  by (induction bodies arbitrary: results logged) (auto simp add: update_conv' split: option.splits)

lemma calculate_bodies_keys:
  "fst ` set (fst (calculate_bodies sw jds bodies (results, logged))) = fst ` set results \<union> set bodies"
  by (induction bodies arbitrary: results logged) (auto simp add: dom_update split: option.splits)

lemma calculate_bodies_logged:
  "set (snd (calculate_bodies sw jds bodies (results, logged)))
     = set logged \<union> {b \<in> set bodies. those (map (\<lambda>jd. calc_ut sw jd b) jds) = None}"
  by (induction bodies arbitrary: results logged) (auto split: option.splits)

lemma calculate_positions_Inr:
  "tms \<noteq> [] \<Longrightarrow>
   calculate_positions sw tms (Some bodies)
     = Inr (calculate_bodies sw (map (to_jd sw) tms) bodies ([], []))"
  by (simp add: calculate_positions_def convert_times_to_jd_def)

text \<open>
  Claim C4. For every non-empty batch of N instants and every requested body list, a body
  whose position computation fails at some instant does not abort the batch:
  \<open>calculate_positions\<close> returns a dictionary whose keys are exactly the requested
  bodies, every entry is an array of N six-field records, the entry of a failed body is
  the zero-filled array and the body is logged, and the entry of a body whose calls all
  succeed holds the provider's values.
\<close>

theorem calculate_positions_absorbs_failures:
  assumes "tms \<noteq> []"
  shows "\<exists>results logged.
           calculate_positions sw tms (Some bodies) = Inr (results, logged)
           \<and> fst ` set results = set bodies
           \<and> (\<forall>b \<in> set bodies.
                 \<exists>arr. map_of results b = Some arr \<and> length arr = length tms
                   \<and> (if \<forall>t \<in> set tms. calc_ut sw (to_jd sw t) b \<noteq> None
                       then arr = map (\<lambda>t. the (calc_ut sw (to_jd sw t) b)) tms \<and> b \<notin> set logged
                       else arr = replicate (length tms) zero_position \<and> b \<in> set logged))"
proof -
  let ?jds = "map (to_jd sw) tms"
  obtain results logged where r: "calculate_bodies sw ?jds bodies ([], []) = (results, logged)"
    by (cases "calculate_bodies sw ?jds bodies ([], [])")
  have cp: "calculate_positions sw tms (Some bodies) = Inr (results, logged)"
    using assms r by (simp add: calculate_positions_Inr)
  have keys: "fst ` set results = set bodies"
    using calculate_bodies_keys [of sw ?jds bodies "[]" "[]"] r by simp
  have lk: "\<And>b. b \<in> set bodies \<Longrightarrow> map_of results b =
      Some (case those (map (\<lambda>jd. calc_ut sw jd b) ?jds) of
              Some body_data \<Rightarrow> body_data
            | None \<Rightarrow> replicate (length ?jds) zero_position)"
    using calculate_bodies_lookup [of sw ?jds bodies "[]" "[]"] r by simp
  have lg: "set logged = {b \<in> set bodies. those (map (\<lambda>jd. calc_ut sw jd b) ?jds) = None}"
    using calculate_bodies_logged [of sw ?jds bodies "[]" "[]"] r by simp
  have each: "\<exists>arr. map_of results b = Some arr \<and> length arr = length tms
                   \<and> (if \<forall>t \<in> set tms. calc_ut sw (to_jd sw t) b \<noteq> None
                       then arr = map (\<lambda>t. the (calc_ut sw (to_jd sw t) b)) tms \<and> b \<notin> set logged
                       else arr = replicate (length tms) zero_position \<and> b \<in> set logged)"
    if b: "b \<in> set bodies" for b
  proof (cases "those (map (\<lambda>jd. calc_ut sw jd b) ?jds)")
    case None
    then have "\<not> (\<forall>t \<in> set tms. calc_ut sw (to_jd sw t) b \<noteq> None)"
      by (auto simp add: those_map_None_iff)
    with None lk [OF b] lg b show ?thesis by simp
  next
    case (Some body_data)
    then have "(\<forall>t \<in> set tms. calc_ut sw (to_jd sw t) b \<noteq> None)
               \<and> body_data = map (\<lambda>t. the (calc_ut sw (to_jd sw t) b)) tms"
      by (simp add: those_map_Some_iff o_def)
    with Some lk [OF b] lg b show ?thesis by simp
  qed
  show ?thesis using cp keys each by blast
qed

subsection \<open>The vectorized search: structure of the result\<close>

lemma calculate_houses_Inr:
  "\<forall>t\<in>set tms. houses sw (to_jd sw t) lat lon \<noteq> None \<Longrightarrow>
   calculate_houses sw tms lat lon
     = Inr (map (\<lambda>t. fst (the (houses sw (to_jd sw t) lat lon))) tms,
            map (\<lambda>t. snd (the (houses sw (to_jd sw t) lat lon))) tms)"
proof -
  assume a: "\<forall>t\<in>set tms. houses sw (to_jd sw t) lat lon \<noteq> None"
  have "those (map (\<lambda>jd. houses sw jd lat lon) (map (to_jd sw) tms))
        = Some (map (\<lambda>t. the (houses sw (to_jd sw t) lat lon)) tms)"
    using a by (simp add: those_map_Some_iff o_def)
  then show ?thesis
    by (simp add: calculate_houses_def Let_def o_def)
qed

lemma find_elections_rows:
  assumes tg: "time_grid start_dt end_dt interval_minutes = Inr times_arr"
    and ne: "times_arr \<noteq> []"
    and cp: "calculate_positions sw times_arr (Some [0, 1, 2, 3, 4, 5, 6, 10]) = Inr (positions, logged)"
    and ch: "calculate_houses sw times_arr lat lon = Inr (cusps, ascmc)"
  shows "find_elections sw start_dt end_dt lat lon natal_chart topic interval_minutes return_all =
     Inr (map (build_row times_arr (getitem (get_longitudes positions) 1)
                 (rejection_mask times_arr (get_longitudes positions) (get_speeds positions)
                    cusps ascmc (get_theme_config topic))
                 (compute_scores times_arr (get_longitudes positions) (get_speeds positions)
                    cusps ascmc (get_theme_config topic)
                    (case natal_chart of None \<Rightarrow> [] | Some c \<Rightarrow> c) [0, 1, 2, 3, 4, 5, 6, 10]))
              (if return_all then [0..<length times_arr]
               else filter (\<lambda>i. \<not> rejection_mask times_arr (get_longitudes positions)
                                     (get_speeds positions) cusps ascmc (get_theme_config topic) ! i)
                      [0..<length times_arr]))"
  using ne by (simp add: find_elections_def tg cp ch Let_def)

subsection \<open>The example provider, evaluated\<close>

lemma demo_sel:
  "julday demo_swe d h = real_of_int d * 24 + h"
  "calc_ut demo_swe jd body =
     (if body \<in> set [0, 1, 2, 3, 4, 5, 6, 10]
      then Some \<lparr> p_lon = demo_longitude jd body, p_lat = 0, p_dist = 1,
                  p_speed_lon = 1, p_speed_lat = 0, p_speed_dist = 0 \<rparr>
      else None)"
  "houses demo_swe jd lat lon =
     Some ([0, 30, 60, 90, 120, 150, 180, 210, 240, 270, 300, 330],
           [0, 270, 0, 0, 0, 0, 0, 0, 0, 0])"
  by (simp_all add: demo_swe_def)

lemma demo_jd: "to_jd demo_swe 0 = 0" "to_jd demo_swe HOUR = 1"
  by (simp_all add: to_jd_def demo_sel dt_hour_def dt_minute_def dt_second_def
      dt_day_ordinal_def MINUTE_def HOUR_def)

lemma demo_grid: "time_grid 0 (2 * HOUR) 60 = Inr [0, HOUR]"
  by (simp add: time_grid_def py_int_def HOUR_def MINUTE_def upto.simps)

lemma demo_positions:
  "calculate_positions demo_swe [0, HOUR] (Some [0, 1, 2, 3, 4, 5, 6, 10]) =
     Inr ([(0, [demo_position 190, demo_position 190]), (1, [demo_position 45, demo_position 215]),
           (2, [demo_position 50, demo_position 50]), (3, [demo_position 200, demo_position 200]),
           (4, [demo_position 100, demo_position 100]), (5, [demo_position 280, demo_position 280]),
           (6, [demo_position 195, demo_position 195]), (10, [demo_position 0, demo_position 0])], [])"
  by (simp add: calculate_positions_def convert_times_to_jd_def demo_jd demo_sel
      demo_longitude_def demo_position_def)

lemma demo_houses:
  "calculate_houses demo_swe [0, HOUR] lat lon = Inr (demo_cusps, demo_ascmc)"
  by (simp add: calculate_houses_def demo_sel demo_cusps_def demo_ascmc_def)

lemma demo_get_longitudes:
  "get_longitudes [(0, [demo_position 190, demo_position 190]), (1, [demo_position 45, demo_position 215]),
           (2, [demo_position 50, demo_position 50]), (3, [demo_position 200, demo_position 200]),
           (4, [demo_position 100, demo_position 100]), (5, [demo_position 280, demo_position 280]),
           (6, [demo_position 195, demo_position 195]), (10, [demo_position 0, demo_position 0])] = demo_longs"
  "get_speeds [(0, [demo_position 190, demo_position 190]), (1, [demo_position 45, demo_position 215]),
           (2, [demo_position 50, demo_position 50]), (3, [demo_position 200, demo_position 200]),
           (4, [demo_position 100, demo_position 100]), (5, [demo_position 280, demo_position 280]),
           (6, [demo_position 195, demo_position 195]), (10, [demo_position 0, demo_position 0])] = demo_speeds"
  by (simp_all add: get_longitudes_def get_speeds_def demo_position_def demo_longs_def demo_speeds_def)

lemmas array_defs = np_any_def np_where_def take_mask_def fill_mask_def vadd_def vor_def col_def
  getitem_def zeros_def fmod_def isin_def Let_def

lemmas logic_defs = get_sign_indices_def sign_of_def get_ruler_for_sign_def RULER_MAP_def
  EXALTATION_MAP_def mask_signs_def calculate_aspects_def mask_exact_aspect_def mask_phase_def
  voc_target_step_def mask_void_of_course_def mask_debility_def bad_signs_def
  DETRIMENT_MAP_eval FALL_MAP_eval ORB_MOON_PHASE_def

lemmas theme_defs = get_theme_config_def THEMES_def lower_def lower_char_def

lemma demo_rejection_amor:
  "rejection_mask [0, HOUR] demo_longs demo_speeds demo_cusps demo_ascmc (get_theme_config ''amor'')
     = [False, True]"
  by (simp add: rejection_mask_def bad_ruler_step_def malefic_on_angle_def
      array_defs logic_defs theme_defs demo_longs_def demo_speeds_def demo_cusps_def demo_ascmc_def)

lemma demo_rejection_trabajo:
  "rejection_mask [0, HOUR] demo_longs demo_speeds demo_cusps demo_ascmc (get_theme_config ''trabajo'')
     = [False, True]"
  by (simp add: rejection_mask_def bad_ruler_step_def malefic_on_angle_def
      array_defs logic_defs theme_defs demo_longs_def demo_speeds_def demo_cusps_def demo_ascmc_def)


theorem calculate_positions_absorbs_failures_witness:
  "[0, HOUR] \<noteq> []
   \<and> calculate_positions demo_swe [0, HOUR] (Some [0, 7])
       = Inr ([(0, [demo_position 190, demo_position 190]), (7, [zero_position, zero_position])], [7])"
proof -
  have ne: "[0, HOUR] \<noteq> []" by simp
  have ev: "calculate_positions demo_swe [0, HOUR] (Some [0, 7])
       = Inr ([(0, [demo_position 190, demo_position 190]), (7, [zero_position, zero_position])], [7])"
    by (simp add: calculate_positions_def convert_times_to_jd_def demo_jd demo_sel
        demo_longitude_def demo_position_def)
  have "\<exists>results logged. calculate_positions demo_swe [0, HOUR] (Some [0, 7]) = Inr (results, logged)"
    using calculate_positions_absorbs_failures [OF ne, of demo_swe "[0, 7]"] by blast
  with ne ev show ?thesis by blast
qed

subsection \<open>The time grid\<close>

lemma py_int_floor_nonneg: "0 \<le> x \<Longrightarrow> py_int x = \<lfloor>x\<rfloor>"
  by (simp add: py_int_def)

lemma total_intervals_div:
  assumes "0 < m"
  shows "\<lfloor>(real_of_int (e - s) / 1000000) / real_of_int (m * 60)\<rfloor> = (e - s) div (m * MINUTE)"
proof -
  have "(real_of_int (e - s) / 1000000) / real_of_int (m * 60) = real_of_int (e - s) / real_of_int (m * MINUTE)"
    by (simp add: MINUTE_def)
  then show ?thesis by (simp only: floor_divide_of_int_eq)
qed

lemma time_grid_eq:
  assumes "0 < m"
  shows "time_grid s e m = Inr (map (\<lambda>k. s + k * m * MINUTE) [0..(e - s) div (m * MINUTE) - 1])"
proof (cases "0 \<le> e - s")
  case True
  then have "0 \<le> (real_of_int (e - s) / 1000000) / real_of_int (m * 60)"
    using assms by simp
  then have "py_int ((real_of_int (e - s) / 1000000) / real_of_int (m * 60)) = (e - s) div (m * MINUTE)"
    using total_intervals_div [OF assms] by (simp add: py_int_floor_nonneg)
  then show ?thesis using assms by (simp add: time_grid_def Let_def)
next
  case False
  then have neg: "(real_of_int (e - s) / 1000000) / real_of_int (m * 60) < 0"
    using assms by (simp add: divide_neg_pos)
  then have "py_int ((real_of_int (e - s) / 1000000) / real_of_int (m * 60)) \<le> 0"
    by (simp add: py_int_def ceiling_le_zero)
  moreover have "(e - s) div (m * MINUTE) \<le> 0"
    using False assms by (simp add: MINUTE_def div_nonpos_pos_le0)
  ultimately show ?thesis using assms by (simp add: time_grid_def Let_def)
qed

lemma time_grid_end_excluded:
  assumes "0 < m" "time_grid s e m = Inr ts"
  shows "e \<notin> set ts \<and> (\<forall>t \<in> set ts. s \<le> t \<and> t + m * MINUTE \<le> e)"
proof -
  have st: "0 < m * MINUTE" using assms by (simp add: MINUTE_def)
  have ts: "ts = map (\<lambda>k. s + k * m * MINUTE) [0..(e - s) div (m * MINUTE) - 1]"
    using assms time_grid_eq [OF assms(1), of s e] by simp
  have b: "s \<le> s + k * m * MINUTE \<and> s + k * m * MINUTE + m * MINUTE \<le> e"
    if k: "0 \<le> k" "k \<le> (e - s) div (m * MINUTE) - 1" for k
  proof -
    have "(k + 1) * (m * MINUTE) \<le> ((e - s) div (m * MINUTE)) * (m * MINUTE)"
      using k st by (intro mult_right_mono) auto
    also have "\<dots> \<le> e - s"
      using st by (metis div_mult_mod_eq le_add_same_cancel1 pos_mod_sign)
    finally have "(k + 1) * (m * MINUTE) \<le> e - s" .
    moreover have "0 \<le> k * m * MINUTE" using k st assms by (simp add: MINUTE_def)
    ultimately show ?thesis by (simp add: algebra_simps)
  qed
  have all: "\<forall>t \<in> set ts. s \<le> t \<and> t + m * MINUTE \<le> e"
    unfolding ts using b by auto
  have "e \<notin> set ts"
  proof
    assume "e \<in> set ts"
    with all have "e + m * MINUTE \<le> e" by blast
    with st show False by simp
  qed
  with all show ?thesis by blast
qed

lemma time_grid_short_range:
  assumes "0 < m" "e - s < m * MINUTE"
  shows "time_grid s e m = Inr []"
proof -
  have "(e - s) div (m * MINUTE) \<le> 0"
  proof (cases "0 \<le> e - s")
    case True
    then show ?thesis using assms by (simp add: div_pos_pos_trivial)
  next
    case False
    then show ?thesis using assms by (simp add: MINUTE_def div_nonpos_pos_le0)
  qed
  then show ?thesis using time_grid_eq [OF assms(1), of s e] by simp
qed

lemma find_elections_empty_grid:
  "time_grid s e m = Inr [] \<Longrightarrow> find_elections sw s e lat lon natal topic m ra = Inl ValueError"
  by (simp add: find_elections_def calculate_positions_def convert_times_to_jd_def)

lemma time_grid_exact_multiple:
  assumes "0 < m" "0 < n"
  shows "time_grid s (s + n * m * MINUTE) m = Inr (map (\<lambda>k. s + k * m * MINUTE) [0..n - 1])
         \<and> last (map (\<lambda>k. s + k * m * MINUTE) [0..n - 1]) = (s + n * m * MINUTE) - m * MINUTE"
proof -
  have st: "m * MINUTE \<noteq> 0" using assms by (simp add: MINUTE_def)
  have "(s + n * m * MINUTE - s) div (m * MINUTE) = n"
    using st by (simp add: mult.assoc)
  then have g: "time_grid s (s + n * m * MINUTE) m = Inr (map (\<lambda>k. s + k * m * MINUTE) [0..n - 1])"
    using time_grid_eq [OF assms(1), of s "s + n * m * MINUTE"] by simp
  have ne: "[0..n - 1] \<noteq> []" using assms by simp
  have "last [0..n - 1] = n - 1" using assms by (simp add: upto_rec2)
  then have "last (map (\<lambda>k. s + k * m * MINUTE) [0..n - 1]) = s + (n - 1) * m * MINUTE"
    using ne by (simp add: last_map)
  then show ?thesis using g by (simp add: algebra_simps)
qed

text \<open>
  Claim C10. The grid part holds: for a step \<open>m > 0\<close> the grid is \<open>start + k*m\<close> for
  \<open>k\<close> from 0 below \<open>floor((end - start)/m)\<close> (\<open>time_grid_eq\<close>), \<open>end\<close> is never
  in it (\<open>time_grid_end_excluded\<close>), on an exact multiple the last instant is
  \<open>end - m\<close> (\<open>time_grid_exact_multiple\<close>), and a range shorter than one step gives
  the empty grid (\<open>time_grid_short_range\<close>). The result part does not: on an empty
  grid the search raises instead of returning an empty result. The conversion of the
  instants in \<open>calculate_positions\<close> raises \<open>ValueError\<close> on the empty array, and the
  percentage logged after the filters divides by the number of instants.
\<close>

theorem empty_range_search_raises:
  "time_grid s s 60 = Inr []
   \<and> find_elections sw s s lat lon natal topic 60 return_all = Inl ValueError
   \<and> time_grid 0 (HOUR - 1) 60 = Inr []
   \<and> find_elections demo_swe 0 (HOUR - 1) 0 0 None ''trabajo'' 60 True = Inl ValueError"
proof -
  have a: "time_grid s s 60 = Inr []"
    by (rule time_grid_short_range) (simp_all add: MINUTE_def)
  have b: "time_grid 0 (HOUR - 1) 60 = Inr []"
    by (rule time_grid_short_range) (simp_all add: MINUTE_def HOUR_def)
  show ?thesis
    using a b find_elections_empty_grid [OF a] find_elections_empty_grid [OF b] by simp
qed

subsection \<open>The rows of the result\<close>

lemma build_row_fields:
  "timestamp (build_row ts moon rej sc i) = ts ! i"
  "is_valid (build_row ts moon rej sc i) = (\<not> rej ! i)"
  "score_total (build_row ts moon rej sc i) = sa_total sc ! i"
  "score_moon (build_row ts moon rej sc i) = sa_moon sc ! i"
  "score_r_asc (build_row ts moon rej sc i) = sa_r_asc sc ! i"
  "score_r_h10 (build_row ts moon rej sc i) = sa_r_h10 sc ! i"
  "score_natal (build_row ts moon rej sc i) = sa_natal sc ! i"
  "score_comb (build_row ts moon rej sc i) = sa_comb sc ! i"
  "score_general (build_row ts moon rej sc i) = sa_total sc ! i - sa_natal sc ! i"
  "score_positive (build_row ts moon rej sc i) = sa_positive sc ! i"
  "score_negative (build_row ts moon rej sc i) = sa_negative sc ! i"
  "components (build_row ts moon rej sc i)
     = map (\<lambda>(k, v). (k, v ! i)) (filter (\<lambda>(k, v). \<bar>v ! i\<bar> > 1 / 1000) (sa_details sc))"
  by (simp_all add: build_row_def Let_def split_beta)

lemma build_row_normalized:
  "score_normalized (build_row ts moon rej sc i)
     = py_round (min (max ((sa_total sc ! i - sa_natal sc ! i) / 30 * 100) 0) 100 * (70 / 100)
                 + min (max (sa_natal sc ! i / 10 * 100) 0) 100 * (30 / 100)) 1"
  by (simp only: build_row_def Let_def split_beta candidate.select_convs)

subsection \<open>The natal reference and validity\<close>

lemma rows_validity:
  "map (\<lambda>r. (timestamp r, is_valid r)) (map (build_row ts moon rej sc) idxs)
     = map (\<lambda>i. (ts ! i, \<not> rej ! i)) idxs"
  by (simp add: o_def build_row_fields)



lemma demo_find_rows:
  "find_elections demo_swe 0 (2 * HOUR) lat lon natal_chart topic 60 return_all =
     Inr (map (build_row [0, HOUR] (getitem demo_longs 1)
                 (rejection_mask [0, HOUR] demo_longs demo_speeds demo_cusps demo_ascmc
                    (get_theme_config topic))
                 (compute_scores [0, HOUR] demo_longs demo_speeds demo_cusps demo_ascmc
                    (get_theme_config topic)
                    (case natal_chart of None \<Rightarrow> [] | Some c \<Rightarrow> c) [0, 1, 2, 3, 4, 5, 6, 10]))
              (if return_all then [0..<length [0, HOUR]]
               else filter (\<lambda>i. \<not> rejection_mask [0, HOUR] demo_longs demo_speeds demo_cusps
                                     demo_ascmc (get_theme_config topic) ! i) [0..<length [0, HOUR]]))"
proof -
  have ne: "[0, HOUR] \<noteq> []" by simp
  from find_elections_rows [OF demo_grid ne demo_positions demo_houses]
  show ?thesis unfolding demo_get_longitudes .
qed


subsection \<open>Unknown topics\<close>

lemma get_theme_config_fallback:
  "lower topic \<notin> fst ` set THEMES \<Longrightarrow> get_theme_config topic = get_theme_config ''trabajo''"
proof -
  assume "lower topic \<notin> fst ` set THEMES"
  then have "map_of THEMES (lower topic) = None" by (simp add: map_of_eq_None_iff)
  then show ?thesis
    by (simp add: get_theme_config_def THEMES_def lower_def lower_char_def getitem_def)
qed

lemma find_elections_config:
  "get_theme_config topic = get_theme_config topic' \<Longrightarrow>
   find_elections sw s e lat lon natal topic m ra = find_elections sw s e lat lon natal topic' m ra"
  unfolding find_elections_def by (simp only:)

text \<open>
  Claim C8, as amended. For every topic string whose lower-case form is not a key of
  \<open>THEMES\<close>, the table \<open>find_elections\<close> reads, the search is not rejected: it runs
  with the configuration of the default topic \<open>trabajo\<close> (target house 10) and returns
  exactly what the same search with topic \<open>trabajo\<close> returns.
\<close>

theorem unknown_topic_falls_back:
  "lower topic \<notin> fst ` set THEMES \<Longrightarrow>
   find_elections sw s e lat lon natal topic m ra = find_elections sw s e lat lon natal ''trabajo'' m ra
   \<and> target_house (get_theme_config topic) = 10"
  using find_elections_config [OF get_theme_config_fallback, of topic sw s e lat lon natal m ra]
    get_theme_config_fallback [of topic]
  by (simp add: get_theme_config_def THEMES_def lower_def lower_char_def)

lemma xyz_unknown: "lower ''xyz'' \<notin> fst ` set THEMES" "map_of TEMAS_CASAS ''xyz'' = None"
  by (simp_all add: THEMES_def TEMAS_CASAS_def lower_def lower_char_def)

theorem unknown_topic_falls_back_witness:
  "lower ''xyz'' \<notin> fst ` set THEMES
   \<and> find_elections demo_swe 0 (2 * HOUR) 0 0 None ''xyz'' 60 True
       = find_elections demo_swe 0 (2 * HOUR) 0 0 None ''trabajo'' 60 True
   \<and> target_house (get_theme_config ''xyz'') = 10"
  using unknown_topic_falls_back [of "''xyz''" demo_swe 0 "2 * HOUR" 0 0 None 60 True]
  by (simp add: xyz_unknown)

text \<open>
  Claim C8 as stated fails. The topic \<open>xyz\<close> is a key of neither topic table
  (\<open>get_casa_for_tema\<close> of config/temas\_casas.py does raise on it), yet the search with
  topic \<open>xyz\<close> returns a result, the one of topic \<open>trabajo\<close>.
\<close>

theorem unknown_topic_not_rejected:
  "map_of TEMAS_CASAS ''xyz'' = None
   \<and> map_of THEMES (lower ''xyz'') = None
   \<and> get_casa_for_tema ''xyz'' = Inl ValueError
   \<and> \<not> isl (find_elections demo_swe 0 (2 * HOUR) 0 0 None ''xyz'' 60 True)
   \<and> map (\<lambda>r. (timestamp r, is_valid r))
        (projr (find_elections demo_swe 0 (2 * HOUR) 0 0 None ''xyz'' 60 True))
      = [(0, True), (HOUR, False)]
   \<and> find_elections demo_swe 0 (2 * HOUR) 0 0 None ''xyz'' 60 True
       = find_elections demo_swe 0 (2 * HOUR) 0 0 None ''trabajo'' 60 True"
proof -
  have cfg: "get_theme_config ''xyz'' = get_theme_config ''trabajo''"
    by (rule get_theme_config_fallback) (rule xyz_unknown)
  have none: "map_of THEMES (lower ''xyz'') = None"
    using xyz_unknown(1) by (simp add: map_of_eq_None_iff)
  show ?thesis
    using find_elections_config [OF cfg, of demo_swe 0 "2 * HOUR" 0 0 None 60 True] none
    by (simp add: xyz_unknown get_casa_for_tema_def demo_find_rows cfg demo_rejection_trabajo
        upt_rec o_def build_row_fields)
qed

subsection \<open>The combinations group\<close>

lemma compute_scores_comb:
  "sa_comb (compute_scores ts L S cusps ascmc config natal bodies)
     = fst (comb_call ts L S cusps ascmc config bodies)"
  by (simp only: compute_scores_def comb_call_def Let_def split_beta score_arrays.select_convs)

lemma compute_scores_details:
  "\<exists>d. sa_details (compute_scores ts L S cusps ascmc config natal bodies)
         = dict_merge d (snd (comb_call ts L S cusps ascmc config bodies))"
  by (simp only: compute_scores_def comb_call_def Let_def split_beta score_arrays.select_convs) blast

lemma map_of_dict_merge:
  "distinct (map fst d2) \<Longrightarrow>
   map_of (dict_merge d1 d2) k = (case map_of d2 k of Some v \<Rightarrow> Some v | None \<Rightarrow> map_of d1 k)"
  unfolding dict_merge_def
proof (induction d2 arbitrary: d1)
  case Nil
  then show ?case by simp
next
  case (Cons a d2)
  obtain k' v' where a: "a = (k', v')" by (cases a)
  from Cons.prems a have d: "distinct (map fst d2)" and nin: "k' \<notin> fst ` set d2" by auto
  from nin have none: "map_of d2 k' = None" by (simp add: map_of_eq_None_iff)
  show ?case
    using Cons.IH [OF d, of "AList.update k' v' d1"] none
    by (auto simp add: a update_conv' split: option.splits)
qed

lemma add_component_keys:
  "distinct (map fst (snd st)) \<Longrightarrow> distinct (map fst (snd (add_component name score st)))"
  by (simp add: add_component_def distinct_update)

lemma comb_positive_keys:
  "distinct (map fst (snd st)) \<Longrightarrow> distinct (map fst (snd (comb_positive cusps pl pid name st)))"
  by (simp add: comb_positive_def add_component_keys split: option.splits)

lemma comb_negative_keys:
  "distinct (map fst (snd st)) \<Longrightarrow>
   distinct (map fst (snd (comb_negative cusps pl skip pid n1 n2 st)))"
  by (simp add: comb_negative_def Let_def add_component_keys split: option.splits)

lemma comb_keys:
  "distinct (map fst (snd (calculate_combinations_score tms ra_ids ra_longs rh_ids rh_longs
                              planet_longs ascmc cusps nas)))"
  unfolding calculate_combinations_score_def Let_def
  by (intro comb_negative_keys comb_positive_keys add_component_keys) simp

lemma add_component_lookup:
  "map_of (snd (add_component name score st)) k
     = (if k = name then Some score else map_of (snd st) k)"
  by (simp add: add_component_def update_conv')

lemma comb_positive_lookup:
  "map_of (snd (comb_positive cusps pl pid name st)) k
     = (if k = name \<and> map_of pl pid \<noteq> None
        then map_option (\<lambda>p. np_where (in_house (col 9 cusps) (col 10 cusps) p) 2 0) (map_of pl pid)
        else map_of (snd st) k)"
  by (simp add: comb_positive_def add_component_lookup is_in_h10_def split: option.splits)

lemma comb_negative_lookup:
  "map_of (snd (comb_negative cusps pl False pid name_h10 name_asc st)) k
     = (if k = name_asc \<and> map_of pl pid \<noteq> None
        then map_option (\<lambda>p. np_where (in_house (col 0 cusps) (col 1 cusps) p) (- 1) 0) (map_of pl pid)
        else if k = name_h10 \<and> map_of pl pid \<noteq> None
        then map_option (\<lambda>p. np_where (in_house (col 9 cusps) (col 10 cusps) p) (- 1) 0) (map_of pl pid)
        else map_of (snd st) k)"
  by (simp add: comb_negative_def Let_def add_component_lookup is_in_h10_def split: option.splits)

lemma comb_details:
  fixes planet_longs :: "(int \<times> real list) list" and tms ra_ids ra_longs rh_ids rh_longs ascmc cusps
  defines "det \<equiv> snd (calculate_combinations_score tms ra_ids ra_longs rh_ids rh_longs
                          planet_longs ascmc cusps None)"
  shows "map_of det ''comb_pos_sun_h10''
           = map_option (\<lambda>p. np_where (in_house (col 9 cusps) (col 10 cusps) p) 2 0) (map_of planet_longs 0)"
    and "map_of det ''comb_pos_jup_h10''
           = map_option (\<lambda>p. np_where (in_house (col 9 cusps) (col 10 cusps) p) 2 0) (map_of planet_longs 5)"
    and "map_of det ''comb_pos_moon_h10''
           = map_option (\<lambda>p. np_where (in_house (col 9 cusps) (col 10 cusps) p) 2 0) (map_of planet_longs 1)"
    and "map_of det ''comb_neg_saturn_h10''
           = map_option (\<lambda>p. np_where (in_house (col 9 cusps) (col 10 cusps) p) (- 1) 0) (map_of planet_longs 6)"
    and "map_of det ''comb_neg_saturn_asc''
           = map_option (\<lambda>p. np_where (in_house (col 0 cusps) (col 1 cusps) p) (- 1) 0) (map_of planet_longs 6)"
    and "map_of det ''comb_neg_mars_h10''
           = map_option (\<lambda>p. np_where (in_house (col 9 cusps) (col 10 cusps) p) (- 1) 0) (map_of planet_longs 4)"
    and "map_of det ''comb_neg_mars_asc''
           = map_option (\<lambda>p. np_where (in_house (col 0 cusps) (col 1 cusps) p) (- 1) 0) (map_of planet_longs 4)"
  unfolding det_def calculate_combinations_score_def Let_def
  by (simp_all add: comb_negative_lookup comb_positive_lookup add_component_lookup)

lemma engine_planet_longs:
  "map_of (map (\<lambda>pid. (pid, getitem L pid)) [0, 1, 2, 3, 4, 5, 6, 10]) 0 = Some (getitem L 0)"
  "map_of (map (\<lambda>pid. (pid, getitem L pid)) [0, 1, 2, 3, 4, 5, 6, 10]) 1 = Some (getitem L 1)"
  "map_of (map (\<lambda>pid. (pid, getitem L pid)) [0, 1, 2, 3, 4, 5, 6, 10]) 4 = Some (getitem L 4)"
  "map_of (map (\<lambda>pid. (pid, getitem L pid)) [0, 1, 2, 3, 4, 5, 6, 10]) 5 = Some (getitem L 5)"
  "map_of (map (\<lambda>pid. (pid, getitem L pid)) [0, 1, 2, 3, 4, 5, 6, 10]) 6 = Some (getitem L 6)"
  by simp_all

lemma compute_scores_comb_lookup:
  assumes "map_of (snd (comb_call ts L S cusps ascmc config bodies)) k = Some v"
  shows "map_of (sa_details (compute_scores ts L S cusps ascmc config natal bodies)) k = Some v"
proof -
  obtain d where d: "sa_details (compute_scores ts L S cusps ascmc config natal bodies)
         = dict_merge d (snd (comb_call ts L S cusps ascmc config bodies))"
    using compute_scores_details by blast
  have "distinct (map fst (snd (comb_call ts L S cusps ascmc config bodies)))"
    by (simp only: comb_call_def Let_def comb_keys)
  from map_of_dict_merge [OF this, of d k] assms d show ?thesis by simp
qed

lemma engine_comb_details:
  fixes config :: ThemeConfig and ts L S cusps ascmc natal
  defines "det \<equiv> sa_details (compute_scores ts L S cusps ascmc config natal [0, 1, 2, 3, 4, 5, 6, 10])"
  shows "map_of det ''comb_pos_sun_h10''
           = Some (np_where (in_house (col 9 cusps) (col 10 cusps) (getitem L 0)) 2 0)"
    and "map_of det ''comb_pos_jup_h10''
           = Some (np_where (in_house (col 9 cusps) (col 10 cusps) (getitem L 5)) 2 0)"
    and "map_of det ''comb_pos_moon_h10''
           = Some (np_where (in_house (col 9 cusps) (col 10 cusps) (getitem L 1)) 2 0)"
    and "map_of det ''comb_neg_saturn_h10''
           = Some (np_where (in_house (col 9 cusps) (col 10 cusps) (getitem L 6)) (- 1) 0)"
    and "map_of det ''comb_neg_saturn_asc''
           = Some (np_where (in_house (col 0 cusps) (col 1 cusps) (getitem L 6)) (- 1) 0)"
    and "map_of det ''comb_neg_mars_h10''
           = Some (np_where (in_house (col 9 cusps) (col 10 cusps) (getitem L 4)) (- 1) 0)"
    and "map_of det ''comb_neg_mars_asc''
           = Some (np_where (in_house (col 0 cusps) (col 1 cusps) (getitem L 4)) (- 1) 0)"
  unfolding det_def
  by (rule compute_scores_comb_lookup,
      simp only: comb_call_def Let_def comb_details engine_planet_longs option.map)+

text \<open>
  Claim C1, as amended. In every search, whatever the topic's configuration, the
  combinations group tests occupancy against the fixed house 10 (from cusp 10 to cusp 11)
  and house 1 (from cusp 1 to cusp 2): its components are +2 where the Sun, Jupiter and
  the Moon occupy house 10, -1 where Saturn and where Mars occupy house 10, and -1 where
  Saturn and where Mars occupy house 1. The topic's house is no argument of these tests.
\<close>

theorem combinations_occupancy_uses_house_10:
  fixes config :: ThemeConfig and ts L S cusps ascmc natal
  defines "det \<equiv> sa_details (compute_scores ts L S cusps ascmc config natal [0, 1, 2, 3, 4, 5, 6, 10])"
  shows "map_of det ''comb_pos_sun_h10''
           = Some (np_where (in_house (col 9 cusps) (col 10 cusps) (getitem L 0)) 2 0)
    \<and> map_of det ''comb_pos_jup_h10''
           = Some (np_where (in_house (col 9 cusps) (col 10 cusps) (getitem L 5)) 2 0)
    \<and> map_of det ''comb_pos_moon_h10''
           = Some (np_where (in_house (col 9 cusps) (col 10 cusps) (getitem L 1)) 2 0)
    \<and> map_of det ''comb_neg_saturn_h10''
           = Some (np_where (in_house (col 9 cusps) (col 10 cusps) (getitem L 6)) (- 1) 0)
    \<and> map_of det ''comb_neg_saturn_asc''
           = Some (np_where (in_house (col 0 cusps) (col 1 cusps) (getitem L 6)) (- 1) 0)
    \<and> map_of det ''comb_neg_mars_h10''
           = Some (np_where (in_house (col 9 cusps) (col 10 cusps) (getitem L 4)) (- 1) 0)
    \<and> map_of det ''comb_neg_mars_asc''
           = Some (np_where (in_house (col 0 cusps) (col 1 cusps) (getitem L 4)) (- 1) 0)"
  unfolding det_def by (simp only: engine_comb_details simp_thms)

lemma demo_gather_asc:
  "gather_rulers demo_longs demo_speeds (get_sign_indices (col 0 demo_ascmc)) (length [0, HOUR])
     = ([4, 4], [100, 100], [1, 1])"
  by (simp add: gather_rulers_def array_defs logic_defs demo_longs_def demo_speeds_def demo_ascmc_def)

lemma demo_gather_amor:
  "gather_rulers demo_longs demo_speeds
     (get_sign_indices (col (nat (target_house (get_theme_config ''amor'') - 1)) demo_cusps))
     (length [0, HOUR])
     = ([3, 3], [200, 200], [1, 1])"
  by (simp add: gather_rulers_def array_defs logic_defs theme_defs demo_longs_def demo_speeds_def
      demo_cusps_def)

lemma demo_comb_amor:
  "fst (comb_call [0, HOUR] demo_longs demo_speeds demo_cusps demo_ascmc (get_theme_config ''amor'')
         [0, 1, 2, 3, 4, 5, 6, 10]) = [2, 2]"
  by (simp only: comb_call_def Let_def demo_gather_asc demo_gather_amor fst_conv snd_conv)
     (simp add: calculate_combinations_score_def comb_positive_def comb_negative_def is_in_h10_def
       add_component_def in_house_def array_defs mask_exact_aspect_def calculate_aspects_def
       demo_longs_def demo_cusps_def)

text \<open>
  Claim C1 as stated fails. The topic \<open>amor\<close> maps to house 7. On the example grid the
  Sun and Saturn occupy house 7 and Jupiter does not; yet the Sun earns no +2 and Saturn
  no -1, while Jupiter, in house 10, earns +2, and the group's score in the rows of the
  search is 2.
\<close>

theorem topic_house_occupancy_ignored:
  "target_house (get_theme_config ''amor'') = 7
   \<and> in_house (col 6 demo_cusps) (col 7 demo_cusps) (getitem demo_longs 0) = [True, True]
   \<and> in_house (col 6 demo_cusps) (col 7 demo_cusps) (getitem demo_longs 6) = [True, True]
   \<and> in_house (col 6 demo_cusps) (col 7 demo_cusps) (getitem demo_longs 5) = [False, False]
   \<and> map_of (sa_details (compute_scores [0, HOUR] demo_longs demo_speeds demo_cusps demo_ascmc
                (get_theme_config ''amor'') [] [0, 1, 2, 3, 4, 5, 6, 10])) ''comb_pos_sun_h10''
       = Some [0, 0]
   \<and> map_of (sa_details (compute_scores [0, HOUR] demo_longs demo_speeds demo_cusps demo_ascmc
                (get_theme_config ''amor'') [] [0, 1, 2, 3, 4, 5, 6, 10])) ''comb_neg_saturn_h10''
       = Some [0, 0]
   \<and> map_of (sa_details (compute_scores [0, HOUR] demo_longs demo_speeds demo_cusps demo_ascmc
                (get_theme_config ''amor'') [] [0, 1, 2, 3, 4, 5, 6, 10])) ''comb_pos_jup_h10''
       = Some [2, 2]
   \<and> map score_comb (projr (find_elections demo_swe 0 (2 * HOUR) 0 0 None ''amor'' 60 True))
       = [2, 2]"
  by (simp add: engine_comb_details demo_find_rows upt_rec o_def build_row_fields
      compute_scores_comb demo_comb_amor)
     (simp add: theme_defs in_house_def array_defs demo_longs_def demo_cusps_def)

subsection \<open>Legacy phase 2\<close>











lemma fase_2_empty: "fase_2_enraizamiento f tema orden [] = Inl ValueError"
  by (simp add: fase_2_enraizamiento_def)






lemma fase_1_Inr:
  assumes "a \<le> b"
  shows "fase_1_filtro_basico ok a b = Inr (filter ok (generar_momentos_fase1 a b))"
proof -
  have "generar_momentos_fase1 a b \<noteq> []"
    using assms by (subst generar_momentos_fase1.simps) simp
  then show ?thesis by (simp add: fase_1_filtro_basico_def Let_def)
qed








subsection \<open>The lengths of the arrays\<close>

lemma length_np_where [simp]: "length (np_where m a b) = length m"
  by (simp add: np_where_def)

lemma length_vadd [simp]: "length (vadd xs ys) = min (length xs) (length ys)"
  by (simp add: vadd_def)

lemma length_vor [simp]: "length (vor xs ys) = min (length xs) (length ys)"
  by (simp add: vor_def)

lemma length_col [simp]: "length (col k m) = length m"
  by (simp add: col_def)

lemma length_zeros [simp]: "length (zeros n) = n"
  by (simp add: zeros_def)

lemma length_put_mask [simp]: "length (put_mask ms xs vals) = length xs"
  by (induction ms xs vals rule: put_mask.induct) (auto split: list.splits)

lemma length_fill_mask [simp]: "length (fill_mask m c arr) = min (length m) (length arr)"
  by (simp add: fill_mask_def)

lemma length_isin [simp]: "length (isin xs vals) = length xs"
  by (simp add: isin_def)

lemma length_get_sign_indices [simp]: "length (get_sign_indices ls) = length ls"
  by (simp add: get_sign_indices_def)

lemma length_calculate_aspects [simp]:
  "length (calculate_aspects a b) = min (length a) (length b)"
  by (simp add: calculate_aspects_def)

lemma length_mask_exact_aspect [simp]:
  "length (mask_exact_aspect a b ang orb) = min (length a) (length b)"
  by (simp add: mask_exact_aspect_def)

lemma length_mask_phase [simp]:
  "length (mask_phase a b orb) = min (length a) (length b)"
  by (simp add: mask_phase_def)

lemma length_mask_signs [simp]: "length (mask_signs ls fs) = length ls"
  by (simp add: mask_signs_def)

lemma length_mask_debility [simp]: "length (mask_debility p ls) = length ls"
  by (simp add: mask_debility_def)

lemma length_in_house [simp]:
  "length (in_house cs ce p) = min (length cs) (min (length ce) (length p))"
  by (simp add: in_house_def)

lemma length_favorable_fold:
  "length acc = n \<Longrightarrow> length p = n \<Longrightarrow> length cusps = n \<Longrightarrow>
   length (fold (\<lambda>h_idx is_fav.
             vor is_fav (in_house (col h_idx cusps) (col ((h_idx + 1) mod 12) cusps) p)) hs acc) = n"
  by (induction hs arbitrary: acc) simp_all

lemma length_favorable_house_mask:
  "length p = n \<Longrightarrow> length cusps = n \<Longrightarrow> length (favorable_house_mask hs cusps p) = n"
  unfolding favorable_house_mask_def by (rule length_favorable_fold) simp_all

lemma length_soft_aspect_points:
  "length a = n \<Longrightarrow> length b = n \<Longrightarrow> length (soft_aspect_points a b pts) = n"
  by (simp add: soft_aspect_points_def)

subsection \<open>Score states\<close>

lemma set_update_cases:
  "kv \<in> set (AList.update k v al) \<Longrightarrow> kv = (k, v) \<or> kv \<in> set al"
  by (induction al) (auto split: if_splits)

lemma shaped_update:
  assumes "length s = N" and "length v = N" and d: "\<forall>kv \<in> set d. length (snd kv) = N"
  shows "shaped N (s, AList.update k v d)"
proof -
  have "length (snd kv) = N" if "kv \<in> set (AList.update k v d)" for kv
    using set_update_cases [OF that] assms(2) d by auto
  with assms(1) show ?thesis by (simp add: shaped_def)
qed

lemma shaped_init: "shaped N (zeros N, [])"
  by (simp add: shaped_def)

lemma shaped_add_component:
  "shaped N st \<Longrightarrow> length score = N \<Longrightarrow> shaped N (add_component name score st)"
  unfolding add_component_def by (rule shaped_update) (simp_all add: shaped_def)

lemma map_of_length:
  "\<forall>kv \<in> set d. length (snd kv) = N \<Longrightarrow> map_of d k = Some v \<Longrightarrow> length v = N"
proof -
  assume a: "\<forall>kv \<in> set d. length (snd kv) = N" and b: "map_of d k = Some v"
  from b have "(k, v) \<in> set d" by (rule map_of_SomeD)
  with a show ?thesis by fastforce
qed

lemma shaped_score_aspect:
  assumes st: "shaped N st" and m: "length moon = N" and pl: "\<forall>kv \<in> set pl. length (snd kv) = N"
  shows "shaped N (score_aspect moon pl pid ang pts name st)"
proof (cases "map_of pl pid")
  case None
  then show ?thesis using st by (simp add: score_aspect_def)
next
  case (Some p_pos)
  have "length p_pos = N" using pl Some by (rule map_of_length)
  then have "length (np_where (mask_exact_aspect moon p_pos ang (if ang = 0 then 8 else 6)) pts 0) = N"
    using m by simp
  from shaped_add_component [OF st this] show ?thesis
    using Some by (simp add: score_aspect_def Let_def)
qed

lemma ruler_step_length:
  "length (let pid = get_ruler_for_sign sign_id
             in case map_of planet_longs pid of
                  None \<Rightarrow> ruler_pos_arr
                | Some p_longs \<Rightarrow>
                    (let msk = map (\<lambda>s. s = sign_id) signs_arr
                     in if \<not> np_any msk then ruler_pos_arr
                        else put_mask msk ruler_pos_arr (take_mask msk p_longs)))
   = length ruler_pos_arr"
  by (cases "map_of planet_longs (get_ruler_for_sign sign_id)") (simp_all add: Let_def)

lemma fold_length_invariant:
  "(\<And>x acc. length (f x acc) = length acc) \<Longrightarrow> length (fold f xs acc) = length acc"
  by (induction xs arbitrary: acc) simp_all

lemma length_get_ruler_positions [simp]:
  "length (get_ruler_positions pl N signs) = N"
  unfolding get_ruler_positions_def
  by (subst fold_length_invariant) (simp_all only: ruler_step_length length_zeros)

lemma shaped_moon:
  assumes m: "length moon = N" and s: "length sun = N"
    and pl: "\<forall>kv \<in> set pl. length (snd kv) = N"
    and c: "length cusps = N"
  shows "shaped N (calculate_moon_score tms moon sun pl cusps ascmc)"
  unfolding calculate_moon_score_def Let_def
  by (intro shaped_add_component shaped_score_aspect length_soft_aspect_points)
     (simp_all add: m s pl c shaped_init length_favorable_house_mask)

subsection \<open>Ruler group\<close>

lemma dom_exalt_step_length:
  "length (fst (dom_exalt_step rl ri pid st)) = length (fst st)
   \<and> length (snd (dom_exalt_step rl ri pid st)) = length (snd st)"
  by (cases "map_of EXALTATION_MAP pid") (simp_all add: dom_exalt_step_def Let_def)

lemma fold_pair_length_invariant:
  "(\<And>x st. length (fst (f x st)) = length (fst st) \<and> length (snd (f x st)) = length (snd st)) \<Longrightarrow>
   length (fst (fold f xs st)) = length (fst st) \<and> length (snd (fold f xs st)) = length (snd st)"
  by (induction xs arbitrary: st) simp_all

lemma dom_exalt_fold_length:
  "length (fst (fold (dom_exalt_step rl ri) xs (a, b))) = length a
   \<and> length (snd (fold (dom_exalt_step rl ri) xs (a, b))) = length b"
  using fold_pair_length_invariant [of "dom_exalt_step rl ri" xs "(a, b)"]
    dom_exalt_step_length [of rl ri] by simp

lemma term_step_length:
  "length ri = N \<Longrightarrow> length rl = N \<Longrightarrow> length is_term = N \<Longrightarrow>
   length (term_step rl ri pid s prev terms is_term) = N"
  by (induction rl ri pid s prev terms is_term rule: term_step.induct) simp_all

lemma fold_length_preserved:
  "(\<And>x acc. length acc = N \<Longrightarrow> length (f x acc) = N) \<Longrightarrow> length acc = N \<Longrightarrow>
   length (fold f xs acc) = N"
  by (induction xs arbitrary: acc) simp_all

lemma trip_term_step_length:
  assumes ri: "length ri = N" and rl: "length rl = N"
    and a: "length (fst st) = N" and b: "length (snd st) = N"
  shows "length (fst (trip_term_step rl ri pid st)) = N
         \<and> length (snd (trip_term_step rl ri pid st)) = N"
proof (cases "np_any (map (\<lambda>r. r = pid) ri)")
  case False
  then show ?thesis using a b by (simp add: trip_term_step_def Let_def)
next
  case True
  let ?us = "sort (remdups (get_sign_indices (take_mask (map (\<lambda>r. r = pid) ri) rl)))"
  have t: "length (fold (\<lambda>s is_trip.
                          let rulers = (case map_of TRIPLICITY_RULERS s of Some rs \<Rightarrow> rs | None \<Rightarrow> [])
                          in if pid \<in> set rulers
                             then fill_mask
                                    (map2 (\<lambda>m l. m \<and> of_int \<lfloor>l / 30\<rfloor> = (of_int s :: real))
                                          (map (\<lambda>r. r = pid) ri) rl)
                                    True is_trip
                             else is_trip)
                       ?us (fst st)) = N"
    by (rule fold_length_preserved) (simp_all add: Let_def ri rl a)
  have u: "length (fold (\<lambda>s is_term.
                          let terms = (case map_of TERMS_MAP s of Some ts \<Rightarrow> ts | None \<Rightarrow> [])
                          in term_step rl ri pid s 0 terms is_term)
                       ?us (snd st)) = N"
    by (rule fold_length_preserved) (simp_all add: Let_def ri rl b term_step_length)
  show ?thesis
    using True t u by (simp add: trip_term_step_def Let_def)
qed

lemma trip_term_fold_length:
  assumes ri: "length ri = N" and rl: "length rl = N"
    and a: "length (fst st) = N" and b: "length (snd st) = N"
  shows "length (fst (fold (trip_term_step rl ri) xs st)) = N
         \<and> length (snd (fold (trip_term_step rl ri) xs st)) = N"
  using a b
proof (induction xs arbitrary: st)
  case Nil
  then show ?case by simp
next
  case (Cons x xs)
  from trip_term_step_length [OF ri rl Cons.prems]
  have "length (fst (trip_term_step rl ri x st)) = N" "length (snd (trip_term_step rl ri x st)) = N"
    by simp_all
  from Cons.IH [OF this] show ?case by simp
qed

lemma shaped_add_aspect_points:
  assumes st: "shaped N st" and r: "length rl = N" and pl: "\<forall>kv \<in> set pl. length (snd kv) = N"
  shows "shaped N (add_aspect_points prefix rl pl pid name st)"
proof (cases "map_of pl pid")
  case None
  then show ?thesis using st by (simp add: add_aspect_points_def)
next
  case (Some target_pos)
  have "length target_pos = N" using pl Some by (rule map_of_length)
  with r have "length (soft_aspect_points rl target_pos 1) = N"
    by (simp add: length_soft_aspect_points)
  from shaped_add_component [OF st this] show ?thesis
    using Some by (simp add: add_aspect_points_def)
qed

lemma shaped_ruler:
  assumes rl: "length rl = N" and ri: "length ri = N" and s: "length sun = N"
    and pl: "\<forall>kv \<in> set pl. length (snd kv) = N"
    and c: "length cusps = N" and sp: "length speeds = N"
  shows "shaped N (calculate_ruler_score tms rtype rl ri sun pl cusps (Some speeds))"
proof -
  obtain is_dom is_exalt where de:
    "fold (dom_exalt_step rl ri) [0, 1, 2, 3, 4, 5, 6] (replicate N False, replicate N False)
       = (is_dom, is_exalt)"
    by (cases "fold (dom_exalt_step rl ri) [0, 1, 2, 3, 4, 5, 6] (replicate N False, replicate N False)")
  obtain is_trip is_term where tt:
    "fold (trip_term_step rl ri) [0, 1, 2, 3, 4, 5, 6] (replicate N False, replicate N False)
       = (is_trip, is_term)"
    by (cases "fold (trip_term_step rl ri) [0, 1, 2, 3, 4, 5, 6] (replicate N False, replicate N False)")
  have ld: "length is_dom = N" "length is_exalt = N"
    using dom_exalt_fold_length [of rl ri "[0, 1, 2, 3, 4, 5, 6]" "replicate N False" "replicate N False"]
    by (simp_all only: de fst_conv snd_conv length_replicate)
  have lt: "length is_trip = N" "length is_term = N"
    using trip_term_fold_length [OF ri rl, of "(replicate N False, replicate N False)"
        "[0, 1, 2, 3, 4, 5, 6]"]
    by (simp_all only: tt fst_conv snd_conv length_replicate)
  let ?p = "''ruler_'' @ lower rtype"
  have s1: "shaped N (vadd (vadd (zeros N) (np_where is_dom 1 0)) (np_where is_exalt 1 0),
                AList.update (?p @ ''_exaltation'') (np_where is_exalt 1 0)
                  (AList.update (?p @ ''_domicile'') (np_where is_dom 1 0) []))"
    (is "shaped N ?st1")
    using ld by (simp add: shaped_def)
  have s2: "shaped N (vadd (vadd (fst ?st1) (np_where is_trip (1 / 2) 0)) (np_where is_term (1 / 2) 0),
                AList.update (?p @ ''_term'') (np_where is_term (1 / 2) 0)
                  (AList.update (?p @ ''_triplicity'') (np_where is_trip (1 / 2) 0) (snd ?st1)))"
    (is "shaped N ?st2")
  proof (rule shaped_update)
    show "length (vadd (vadd (fst ?st1) (np_where is_trip (1 / 2) 0)) (np_where is_term (1 / 2) 0)) = N"
      using ld lt by simp
    show "length (np_where is_term (1 / 2) 0) = N" using lt by simp
    have "shaped N (fst ?st1, AList.update (?p @ ''_triplicity'') (np_where is_trip (1 / 2) 0) (snd ?st1))"
      by (rule shaped_update) (use s1 lt in \<open>simp_all add: shaped_def\<close>)
    then show "\<forall>kv\<in>set (AList.update (?p @ ''_triplicity'') (np_where is_trip (1 / 2) 0) (snd ?st1)).
                 length (snd kv) = N"
      by (simp add: shaped_def)
  qed
  have s3: "shaped N (add_component (?p @ ''_direct'') (np_where (map (\<lambda>v. v > 0) speeds) 1 0) ?st2)"
    (is "shaped N ?st3")
    by (rule shaped_add_component [OF s2]) (simp add: sp)
  have s4: "shaped N (add_component (?p @ ''_not_combust'')
                 (np_where (map (\<lambda>d. d > 17) (calculate_aspects rl sun)) 1 0) ?st3)"
    (is "shaped N ?st4")
    by (rule shaped_add_component [OF s3]) (simp add: rl s)
  have s5: "shaped N (add_component (?p @ ''_fav_house'')
                 (np_where (favorable_house_mask [0, 9, 10, 8, 4] cusps rl) 1 0) ?st4)"
    (is "shaped N ?st5")
    by (rule shaped_add_component [OF s4]) (simp add: length_favorable_house_mask rl c)
  have s6: "shaped N (add_aspect_points ?p rl pl 3 ''venus'' (add_aspect_points ?p rl pl 5 ''jupiter'' ?st5))"
    by (intro shaped_add_aspect_points s5 rl pl)
  have "calculate_ruler_score tms rtype rl ri sun pl cusps (Some speeds)
        = add_aspect_points ?p rl pl 3 ''venus'' (add_aspect_points ?p rl pl 5 ''jupiter'' ?st5)"
    by (simp only: calculate_ruler_score_def Let_def rl de tt prod.case fst_conv snd_conv option.case)
  with s6 show ?thesis by simp
qed

subsection \<open>Natal-linkage and combinations groups\<close>

lemma shaped_score_natal_aspect:
  assumes st: "shaped N st" and e: "length elect = N"
  shows "shaped N (score_natal_aspect N natal elect pid pc pt ps name st)"
proof (cases "map_of natal pid")
  case None
  then show ?thesis using st by (simp add: score_natal_aspect_def)
next
  case (Some nat_pos)
  have "length (vadd (vadd (vadd (zeros N)
            (np_where (mask_exact_aspect elect (replicate N nat_pos) 0 5) pc 0))
            (np_where (mask_exact_aspect elect (replicate N nat_pos) 120 5) pt 0))
            (np_where (mask_exact_aspect elect (replicate N nat_pos) 60 5) ps 0)) = N"
    using e by simp
  from shaped_add_component [OF st this] show ?thesis
    using Some by (simp add: score_natal_aspect_def Let_def)
qed

lemma shaped_natal_penalty:
  assumes st: "shaped N st" and e: "length elect = N"
  shows "shaped N (natal_penalty N natal elect pid name st)"
proof (cases "map_of natal pid")
  case None
  then show ?thesis using st by (simp add: natal_penalty_def)
next
  case (Some nat_pos)
  have "length (np_where (mask_exact_aspect elect (replicate N nat_pos) 0 5) (- 2) (0::real)) = N"
    using e by simp
  from shaped_add_component [OF st this] show ?thesis
    using Some by (simp add: natal_penalty_def)
qed

lemma shaped_natal:
  assumes a: "length ascmc = length tms"
  shows "shaped (length tms) (calculate_natal_score tms ascmc cusps natal)"
proof (cases "natal = []")
  case True
  then show ?thesis by (simp add: calculate_natal_score_def shaped_init)
next
  case False
  have c: "length (col 0 ascmc) = length tms" "length (col 1 ascmc) = length tms"
    using a by simp_all
  show ?thesis
    unfolding calculate_natal_score_def Let_def
    using False
    by (simp only: if_False)
       (intro shaped_score_natal_aspect shaped_natal_penalty shaped_init c)
qed

lemma shaped_comb_positive:
  assumes st: "shaped N st" and c: "length cusps = N" and pl: "\<forall>kv \<in> set pl. length (snd kv) = N"
  shows "shaped N (comb_positive cusps pl pid name st)"
proof (cases "map_of pl pid")
  case None
  then show ?thesis using st by (simp add: comb_positive_def)
next
  case (Some p_longs)
  have "length p_longs = N" using pl Some by (rule map_of_length)
  then have "length (np_where (is_in_h10 cusps p_longs) 2 (0::real)) = N"
    using c by (simp add: is_in_h10_def)
  from shaped_add_component [OF st this] show ?thesis
    using Some by (simp add: comb_positive_def)
qed

lemma shaped_comb_negative:
  assumes st: "shaped N st" and c: "length cusps = N" and pl: "\<forall>kv \<in> set pl. length (snd kv) = N"
  shows "shaped N (comb_negative cusps pl skip pid n1 n2 st)"
proof (cases "skip \<or> map_of pl pid = None")
  case True
  then show ?thesis using st by (auto simp add: comb_negative_def)
next
  case False
  then obtain p_longs where Some: "map_of pl pid = Some p_longs" and ns: "\<not> skip" by auto
  have l: "length p_longs = N" using pl Some by (rule map_of_length)
  have a: "length (np_where (is_in_h10 cusps p_longs) (- 1) (0::real)) = N"
    using c l by (simp add: is_in_h10_def)
  have b: "length (np_where (in_house (col 0 cusps) (col 1 cusps) p_longs) (- 1) (0::real)) = N"
    using c l by simp
  from shaped_add_component [OF shaped_add_component [OF st a] b] show ?thesis
    using Some ns by (simp add: comb_negative_def Let_def)
qed

lemma shaped_comb:
  assumes a: "length ral = length tms" and h: "length rhl = length tms"
    and c: "length cusps = length tms"
    and pl: "\<forall>kv \<in> set pl. length (snd kv) = length tms"
  shows "shaped (length tms) (calculate_combinations_score tms rai ral rhi rhl pl ascmc cusps nas)"
proof -
  have l: "length (np_where (vor (vor (mask_exact_aspect ral rhl 0 8) (mask_exact_aspect ral rhl 60 6))
                     (mask_exact_aspect ral rhl 120 6)) 2 (0::real)) = length tms"
    using a h by simp
  show ?thesis
    unfolding calculate_combinations_score_def Let_def
    by (intro shaped_comb_negative shaped_comb_positive shaped_add_component shaped_init l c pl)
qed

subsection \<open>The gathered rulers\<close>

lemma gather_rulers_length:
  assumes s: "length signs = N"
  shows "length (fst (gather_rulers longitudes speeds signs N)) = N
       \<and> length (fst (snd (gather_rulers longitudes speeds signs N))) = N
       \<and> length (snd (snd (gather_rulers longitudes speeds signs N))) = N"
proof -
  let ?f = "\<lambda>sign_idx (ids, longs, spds).
             let msk = map (\<lambda>s. s = sign_idx) signs
             in if \<not> np_any msk then (ids, longs, spds)
                else
                  (let pid = get_ruler_for_sign sign_idx
                   in (fill_mask msk pid ids,
                       put_mask msk longs (take_mask msk (getitem longitudes pid)),
                       put_mask msk spds (take_mask msk (getitem speeds pid))))"
  have step: "length (fst (?f x st)) = N \<and> length (fst (snd (?f x st))) = N
              \<and> length (snd (snd (?f x st))) = N"
    if "length (fst st) = N \<and> length (fst (snd st)) = N \<and> length (snd (snd st)) = N" for x st
    using that s by (cases st) (simp add: Let_def split_beta)
  have inv: "length (fst (fold ?f xs st)) = N \<and> length (fst (snd (fold ?f xs st))) = N
              \<and> length (snd (snd (fold ?f xs st))) = N"
    if "length (fst st) = N \<and> length (fst (snd st)) = N \<and> length (snd (snd st)) = N" for xs st
    using that
  proof (induction xs arbitrary: st)
    case Nil
    then show ?case by simp
  next
    case (Cons x xs)
    from Cons.IH [OF step [OF Cons.prems]] show ?case by simp
  qed
  have "length (fst (replicate N (0::int), zeros N, zeros N)) = N
        \<and> length (fst (snd (replicate N (0::int), zeros N, zeros N))) = N
        \<and> length (snd (snd (replicate N (0::int), zeros N, zeros N))) = N"
    by simp
  from inv [OF this] show ?thesis
    unfolding gather_rulers_def .
qed

subsection \<open>The merged details and the aggregates\<close>

lemma dict_merge_entries:
  "\<forall>kv \<in> set d1. P kv \<Longrightarrow> \<forall>kv \<in> set d2. P kv \<Longrightarrow> \<forall>kv \<in> set (dict_merge d1 d2). P kv"
  unfolding dict_merge_def
proof (induction d2 arbitrary: d1)
  case Nil
  then show ?case by simp
next
  case (Cons x d2)
  obtain k v where x: "x = (k, v)" by (cases x)
  have "\<forall>kv \<in> set (AList.update k v d1). P kv"
    using set_update_cases [of _ k v d1] Cons.prems x by auto
  moreover have "\<forall>kv \<in> set d2. P kv" using Cons.prems by simp
  ultimately show ?case using Cons.IH [of "AList.update k v d1"] x by simp
qed

lemma fold_vadd_length:
  "\<forall>kv \<in> set d. length (snd kv) = N \<Longrightarrow> length acc = N \<Longrightarrow>
   length (fold (\<lambda>(key, arr) acc. vadd acc (map g arr)) d acc) = N"
  by (induction d arbitrary: acc) (simp_all add: split_beta)

subsection \<open>The score arrays\<close>

lemma getitem_length:
  assumes e: "\<forall>kv \<in> set d. length (snd kv) = N" and k: "k \<in> fst ` set d"
  shows "length (getitem d k) = N"
proof -
  from k have "map_of d k \<noteq> None" by (simp add: map_of_eq_None_iff)
  then obtain v where v: "map_of d k = Some v" by auto
  from map_of_length [OF e v] v show ?thesis by (simp add: getitem_def)
qed

lemma planet_longs_dict_entries:
  assumes e: "\<forall>kv \<in> set L. length (snd kv) = N" and b: "set bodies \<subseteq> fst ` set L"
  shows "\<forall>kv \<in> set (map (\<lambda>pid. (pid, getitem L pid)) bodies). length (snd kv) = N"
proof
  fix kv assume "kv \<in> set (map (\<lambda>pid. (pid, getitem L pid)) bodies)"
  then obtain pid where p: "pid \<in> set bodies" and kv: "kv = (pid, getitem L pid)" by auto
  from p b have "pid \<in> fst ` set L" by blast
  from getitem_length [OF e this] kv show "length (snd kv) = N" by simp
qed

lemma compute_scores_shape:
  fixes ts :: "datetime list" and S :: "(int \<times> real list) list" and config :: ThemeConfig
    and natal :: "(int \<times> real) list"
  assumes e: "\<forall>kv \<in> set L. length (snd kv) = length ts"
    and b: "set bodies \<subseteq> fst ` set L"
    and k0: "0 \<in> fst ` set L" and k1: "1 \<in> fst ` set L"
    and c: "length cusps = length ts" and a: "length ascmc = length ts"
  defines "sc \<equiv> compute_scores ts L S cusps ascmc config natal bodies"
  shows "length (sa_moon sc) = length ts \<and> length (sa_r_asc sc) = length ts
       \<and> length (sa_r_h10 sc) = length ts \<and> length (sa_natal sc) = length ts
       \<and> length (sa_comb sc) = length ts \<and> length (sa_total sc) = length ts
       \<and> length (sa_positive sc) = length ts \<and> length (sa_negative sc) = length ts
       \<and> (\<forall>kv \<in> set (sa_details sc). length (snd kv) = length ts)
       \<and> sa_total sc
           = vadd (vadd (vadd (vadd (sa_moon sc) (sa_r_asc sc)) (sa_r_h10 sc)) (sa_natal sc)) (sa_comb sc)"
proof -
  let ?N = "length ts"
  let ?ra = "gather_rulers L S (get_sign_indices (col 0 ascmc)) ?N"
  let ?rh = "gather_rulers L S (get_sign_indices (col (nat (target_house config - 1)) cusps)) ?N"
  let ?pld = "map (\<lambda>pid. (pid, getitem L pid)) bodies"
  let ?M = "calculate_moon_score ts (getitem L 1) (getitem L 0) ?pld cusps ascmc"
  let ?A = "calculate_ruler_score ts ''ASC'' (fst (snd ?ra)) (fst ?ra) (getitem L 0) ?pld cusps
              (Some (snd (snd ?ra)))"
  let ?H = "calculate_ruler_score ts ''H10'' (fst (snd ?rh)) (fst ?rh) (getitem L 0) ?pld cusps
              (Some (snd (snd ?rh)))"
  let ?T = "calculate_natal_score ts ascmc cusps natal"
  let ?C = "calculate_combinations_score ts (fst ?ra) (fst (snd ?ra)) (fst ?rh) (fst (snd ?rh))
              ?pld ascmc cusps None"
  let ?D = "dict_merge (dict_merge (dict_merge (dict_merge (snd ?M) (snd ?A)) (snd ?H)) (snd ?T)) (snd ?C)"
  have eq: "sc = \<lparr> sa_moon = fst ?M, sa_r_asc = fst ?A, sa_r_h10 = fst ?H, sa_natal = fst ?T,
                   sa_comb = fst ?C,
                   sa_total = vadd (vadd (vadd (vadd (fst ?M) (fst ?A)) (fst ?H)) (fst ?T)) (fst ?C),
                   sa_details = ?D,
                   sa_positive = fold (\<lambda>(key, arr) acc. vadd acc (map (\<lambda>x. max x 0) arr)) ?D (zeros ?N),
                   sa_negative = fold (\<lambda>(key, arr) acc. vadd acc (map (\<lambda>x. min x 0) arr)) ?D (zeros ?N) \<rparr>"
    by (simp only: sc_def compute_scores_def Let_def split_beta)
  have l0: "length (getitem L 0) = ?N" and l1: "length (getitem L 1) = ?N"
    using getitem_length [OF e k0] getitem_length [OF e k1] by simp_all
  have pl: "\<forall>kv \<in> set ?pld. length (snd kv) = ?N"
    using e b by (rule planet_longs_dict_entries)
  have ra: "length (fst ?ra) = ?N" "length (fst (snd ?ra)) = ?N" "length (snd (snd ?ra)) = ?N"
    using gather_rulers_length [of "get_sign_indices (col 0 ascmc)" ?N L S] a by simp_all
  have rh: "length (fst ?rh) = ?N" "length (fst (snd ?rh)) = ?N" "length (snd (snd ?rh)) = ?N"
    using gather_rulers_length
      [of "get_sign_indices (col (nat (target_house config - 1)) cusps)" ?N L S] c
    by simp_all
  have M: "shaped ?N ?M" using l1 l0 pl c by (rule shaped_moon)
  have A: "shaped ?N ?A" using ra(2) ra(1) l0 pl c ra(3) by (rule shaped_ruler)
  have H: "shaped ?N ?H" using rh(2) rh(1) l0 pl c rh(3) by (rule shaped_ruler)
  have T: "shaped ?N ?T" using a by (rule shaped_natal)
  have C: "shaped ?N ?C" using ra(2) rh(2) c pl by (rule shaped_comb)
  have D: "\<forall>kv \<in> set ?D. length (snd kv) = ?N"
  proof -
    have eM: "\<forall>kv \<in> set (snd ?M). length (snd kv) = ?N" using M by (simp add: shaped_def)
    have eA: "\<forall>kv \<in> set (snd ?A). length (snd kv) = ?N" using A by (simp add: shaped_def)
    have eH: "\<forall>kv \<in> set (snd ?H). length (snd kv) = ?N" using H by (simp add: shaped_def)
    have eT: "\<forall>kv \<in> set (snd ?T). length (snd kv) = ?N" using T by (simp add: shaped_def)
    have eC: "\<forall>kv \<in> set (snd ?C). length (snd kv) = ?N" using C by (simp add: shaped_def)
    note m1 = dict_merge_entries [OF eM eA]
    note m2 = dict_merge_entries [OF m1 eH]
    note m3 = dict_merge_entries [OF m2 eT]
    show ?thesis by (rule dict_merge_entries [OF m3 eC])
  qed
  have P: "length (fold (\<lambda>(key, arr) acc. vadd acc (map (\<lambda>x. max x 0) arr)) ?D (zeros ?N)) = ?N"
    using D by (rule fold_vadd_length) simp
  have Q: "length (fold (\<lambda>(key, arr) acc. vadd acc (map (\<lambda>x. min x 0) arr)) ?D (zeros ?N)) = ?N"
    using D by (rule fold_vadd_length) simp
  have f: "length (fst ?M) = ?N" "length (fst ?A) = ?N" "length (fst ?H) = ?N"
    "length (fst ?T) = ?N" "length (fst ?C) = ?N"
    using M A H T C by (simp_all add: shaped_def)
  have t: "length (vadd (vadd (vadd (vadd (fst ?M) (fst ?A)) (fst ?H)) (fst ?T)) (fst ?C)) = ?N"
    by (simp only: f length_vadd min.idem)
  show ?thesis
    unfolding eq score_arrays.select_convs
    by (intro conjI f D P Q t refl)
qed

subsection \<open>The rejection mask\<close>

lemma voc_target_step_length:
  "length moon = N \<Longrightarrow> length dti = N \<Longrightarrow> length target = N \<Longrightarrow> length is_voc = N \<Longrightarrow>
   length (voc_target_step moon dti target is_voc) = N"
  by (simp add: voc_target_step_def Let_def)

lemma mask_void_of_course_length:
  assumes e: "\<forall>kv \<in> set pp. length (snd kv) = length moon"
  shows "length (mask_void_of_course tms moon pp) = length moon"
proof -
  let ?N = "length moon"
  let ?dist = "map (\<lambda>m. (of_int \<lfloor>m / 30\<rfloor> * 30 + 30) - m) moon"
  have inner: "length (fold (voc_target_step moon ?dist) targets is_voc) = ?N"
    if "length is_voc = ?N" "\<forall>t \<in> set targets. length t = ?N" for targets is_voc
    using that
    by (induction targets arbitrary: is_voc) (simp_all add: voc_target_step_length)
  have step: "length (fold (voc_target_step moon ?dist)
                                  [map (\<lambda>p. fmod (p + asp) 360) p_longs,
                                   map (\<lambda>p. fmod (p - asp) 360) p_longs]
                                  is_voc) = ?N"
    if "length is_voc = ?N" "length p_longs = ?N" for asp :: real and is_voc p_longs
    by (rule inner) (use that in simp_all)
  have asp: "length (fold (\<lambda>asp is_voc.
                             fold (voc_target_step moon ?dist)
                                  [map (\<lambda>p. fmod (p + asp) 360) p_longs,
                                   map (\<lambda>p. fmod (p - asp) 360) p_longs]
                                  is_voc) asps is_voc) = ?N"
    if "length is_voc = ?N" "length p_longs = ?N" for asps :: "real list" and is_voc p_longs
    by (rule fold_length_preserved) (use that step in blast)+
  have body: "length (case map_of pp pid of
                   None \<Rightarrow> is_voc
                 | Some p_longs \<Rightarrow>
                     fold (\<lambda>asp is_voc.
                             fold (voc_target_step moon ?dist)
                                  [map (\<lambda>p. fmod (p + asp) 360) p_longs,
                                   map (\<lambda>p. fmod (p - asp) 360) p_longs]
                                  is_voc)
                          [0, 60, 90, 120, 180] is_voc) = ?N"
    if v: "length is_voc = ?N" for pid is_voc
  proof (cases "map_of pp pid")
    case None
    then show ?thesis using v by (simp only: option.case)
  next
    case (Some p_longs)
    have "length p_longs = ?N" using e Some by (rule map_of_length)
    from asp [OF v this] show ?thesis by (simp only: Some option.case)
  qed
  have "length (fold (\<lambda>pid is_voc.
                 case map_of pp pid of
                   None \<Rightarrow> is_voc
                 | Some p_longs \<Rightarrow>
                     fold (\<lambda>asp is_voc.
                             fold (voc_target_step moon ?dist)
                                  [map (\<lambda>p. fmod (p + asp) 360) p_longs,
                                   map (\<lambda>p. fmod (p - asp) 360) p_longs]
                                  is_voc)
                          [0, 60, 90, 120, 180] is_voc)
              [0, 2, 3, 4, 5, 6] (replicate ?N True)) = ?N"
    by (rule fold_length_preserved) (simp_all add: body)
  then show ?thesis
    by (simp only: mask_void_of_course_def Let_def)
qed

lemma bad_ruler_step_length:
  "length (bad_ruler_step L S cusp_signs sign_idx acc) = length acc"
  by (simp add: bad_ruler_step_def Let_def)

lemma malefic_on_angle_length:
  assumes l4: "length (getitem L 4) = N" and l6: "length (getitem L 6) = N"
    and a: "length asc = N" and m: "length mc = N"
  shows "length (malefic_on_angle L asc mc N) = N"
  by (simp add: malefic_on_angle_def Let_def l4 l6 a m)

lemma rejection_mask_length:
  fixes ts :: "datetime list"
  assumes e: "\<forall>kv \<in> set L. length (snd kv) = length ts"
    and k: "{0, 1, 4, 6} \<subseteq> fst ` set L"
    and c: "length cusps = length ts" and a: "length ascmc = length ts"
  shows "length (rejection_mask ts L S cusps ascmc config) = length ts"
proof -
  let ?N = "length ts"
  have l: "length (getitem L 0) = ?N" "length (getitem L 1) = ?N"
    "length (getitem L 4) = ?N" "length (getitem L 6) = ?N"
    using k by (simp_all add: getitem_length [OF e])
  have e': "\<forall>kv \<in> set L. length (snd kv) = length (getitem L 1)"
    using e l by simp
  have voc: "length (mask_void_of_course ts (getitem L 1) L) = ?N"
    using mask_void_of_course_length [OF e', of ts] l by simp
  have br: "length (fold (bad_ruler_step L S
               (get_sign_indices (col (nat (target_house config - 1)) cusps)))
               [0, 1, 2, 3, 4, 5, 6, 7, 8, 9, 10, 11] (replicate ?N False)) = ?N"
    by (subst fold_length_invariant) (simp_all only: bad_ruler_step_length length_replicate)
  have ma: "length (malefic_on_angle L (col 0 ascmc) (col 1 ascmc) ?N) = ?N"
    by (rule malefic_on_angle_length) (simp_all add: l a)
  show ?thesis
    unfolding rejection_mask_def Let_def
    by (simp only: length_vor length_mask_signs length_mask_phase voc br ma l length_replicate
        min.idem)
qed

subsection \<open>The arrays of the search\<close>

lemma update_entries:
  assumes d: "\<forall>kv \<in> set d. P kv" and n: "P (k, v)"
  shows "\<forall>kv \<in> set (AList.update k v d). P kv"
proof
  fix kv assume "kv \<in> set (AList.update k v d)"
  from set_update_cases [OF this] d n show "P kv" by auto
qed

lemma calculate_bodies_entries:
  "\<forall>kv \<in> set results. length (snd kv) = length jds \<Longrightarrow>
   \<forall>kv \<in> set (fst (calculate_bodies sw jds bodies (results, logged))). length (snd kv) = length jds"
proof (induction bodies arbitrary: results logged)
  case Nil
  then show ?case by simp
next
  case (Cons body bodies)
  show ?case
  proof (cases "those (map (\<lambda>jd. calc_ut sw jd body) jds)")
    case None
    have "\<forall>kv \<in> set (AList.update body (replicate (length jds) zero_position) results).
            length (snd kv) = length jds"
      using Cons.prems by (rule update_entries) simp
    from Cons.IH [OF this] None show ?thesis by simp
  next
    case (Some body_data)
    then have "length body_data = length jds"
      by (simp add: those_map_Some_iff)
    then have "\<forall>kv \<in> set (AList.update body body_data results). length (snd kv) = length jds"
      using Cons.prems by (intro update_entries) simp_all
    from Cons.IH [OF this] Some show ?thesis by simp
  qed
qed

lemma get_longitudes_shape:
  "fst ` set (get_longitudes positions) = fst ` set positions"
  "\<forall>kv \<in> set positions. length (snd kv) = N \<Longrightarrow>
   \<forall>kv \<in> set (get_longitudes positions). length (snd kv) = N"
proof -
  have "map fst (get_longitudes positions) = map fst positions"
    by (simp add: get_longitudes_def split_beta o_def)
  then show "fst ` set (get_longitudes positions) = fst ` set positions"
    by (metis set_map)
  show "\<forall>kv \<in> set (get_longitudes positions). length (snd kv) = N"
    if "\<forall>kv \<in> set positions. length (snd kv) = N"
    using that by (auto simp add: get_longitudes_def)
qed

lemma engine_arrays:
  assumes ne: "times_arr \<noteq> []"
    and cp: "calculate_positions sw times_arr (Some bodies) = Inr (positions, logged)"
  shows "\<forall>kv \<in> set (get_longitudes positions). length (snd kv) = length times_arr"
    and "fst ` set (get_longitudes positions) = set bodies"
proof -
  have p: "calculate_bodies sw (map (to_jd sw) times_arr) bodies ([], []) = (positions, logged)"
    using cp calculate_positions_Inr [OF ne, of sw bodies] by simp
  have "\<forall>kv \<in> set (fst (calculate_bodies sw (map (to_jd sw) times_arr) bodies ([], []))).
          length (snd kv) = length (map (to_jd sw) times_arr)"
    by (rule calculate_bodies_entries) simp
  then have "\<forall>kv \<in> set positions. length (snd kv) = length times_arr"
    by (simp add: p)
  then show "\<forall>kv \<in> set (get_longitudes positions). length (snd kv) = length times_arr"
    by (rule get_longitudes_shape(2))
  show "fst ` set (get_longitudes positions) = set bodies"
    using calculate_bodies_keys [of sw "map (to_jd sw) times_arr" bodies "[]" "[]"]
    by (simp add: p get_longitudes_shape(1))
qed

lemma calculate_houses_lengths:
  "calculate_houses sw tms lat lon = Inr (cusps, ascmc) \<Longrightarrow>
   length cusps = length tms \<and> length ascmc = length tms"
  by (auto simp add: calculate_houses_def Let_def those_map_Some_iff split: option.splits)

lemma vadd_nth:
  "i < length xs \<Longrightarrow> i < length ys \<Longrightarrow> vadd xs ys ! i = xs ! i + ys ! i"
  by (simp add: vadd_def)

text \<open>
  Claim C3. A search with \<open>return_all=True\<close> whose grid of N instants is non-empty
  and whose house computations succeed returns exactly one row per grid instant, in grid
  order. The rejection mask and every score array (the total, the five group sub-scores,
  the positive and negative parts and each component array) have N entries: the scores
  are computed for all instants, rejected or not. The validity flag of row \<open>i\<close> is the
  negated rejection mask at \<open>i\<close>; whatever that flag, the row's total, its group
  sub-scores, its normalized score and its components are the entries of the score arrays
  at \<open>i\<close>, and the total is the sum of the five group sub-scores.
\<close>

theorem return_all_one_row_per_instant:
  assumes tg: "time_grid start_dt end_dt interval_minutes = Inr times_arr"
    and ne: "times_arr \<noteq> []"
    and hs: "\<forall>t \<in> set times_arr. houses sw (to_jd sw t) lat lon \<noteq> None"
  shows "\<exists>positions logged cusps ascmc rows.
      calculate_positions sw times_arr (Some [0, 1, 2, 3, 4, 5, 6, 10]) = Inr (positions, logged)
    \<and> calculate_houses sw times_arr lat lon = Inr (cusps, ascmc)
    \<and> find_elections sw start_dt end_dt lat lon natal_chart topic interval_minutes True = Inr rows
    \<and> length rows = length times_arr
    \<and> map timestamp rows = times_arr
    \<and> (let longitudes = get_longitudes positions;
            speeds = get_speeds positions;
            config = get_theme_config topic;
            is_rejected = rejection_mask times_arr longitudes speeds cusps ascmc config;
            sc = compute_scores times_arr longitudes speeds cusps ascmc config
                   (case natal_chart of None \<Rightarrow> [] | Some c \<Rightarrow> c) [0, 1, 2, 3, 4, 5, 6, 10]
        in length is_rejected = length times_arr
         \<and> length (sa_total sc) = length times_arr
         \<and> length (sa_moon sc) = length times_arr
         \<and> length (sa_r_asc sc) = length times_arr
         \<and> length (sa_r_h10 sc) = length times_arr
         \<and> length (sa_natal sc) = length times_arr
         \<and> length (sa_comb sc) = length times_arr
         \<and> length (sa_positive sc) = length times_arr
         \<and> length (sa_negative sc) = length times_arr
         \<and> (\<forall>kv \<in> set (sa_details sc). length (snd kv) = length times_arr)
         \<and> (\<forall>i < length times_arr.
               is_valid (rows ! i) = (\<not> is_rejected ! i)
             \<and> score_total (rows ! i) = sa_total sc ! i
             \<and> sa_total sc ! i
                 = sa_moon sc ! i + sa_r_asc sc ! i + sa_r_h10 sc ! i + sa_natal sc ! i + sa_comb sc ! i
             \<and> score_moon (rows ! i) = sa_moon sc ! i
             \<and> score_r_asc (rows ! i) = sa_r_asc sc ! i
             \<and> score_r_h10 (rows ! i) = sa_r_h10 sc ! i
             \<and> score_natal (rows ! i) = sa_natal sc ! i
             \<and> score_comb (rows ! i) = sa_comb sc ! i
             \<and> score_positive (rows ! i) = sa_positive sc ! i
             \<and> score_negative (rows ! i) = sa_negative sc ! i
             \<and> score_normalized (rows ! i)
                 = py_round (min (max ((sa_total sc ! i - sa_natal sc ! i) / 30 * 100) 0) 100 * (70 / 100)
                             + min (max (sa_natal sc ! i / 10 * 100) 0) 100 * (30 / 100)) 1
             \<and> components (rows ! i)
                 = map (\<lambda>(k, v). (k, v ! i))
                       (filter (\<lambda>(k, v). \<bar>v ! i\<bar> > 1 / 1000) (sa_details sc))))"
proof -
  let ?bodies = "[0, 1, 2, 3, 4, 5, 6, 10] :: int list"
  let ?N = "length times_arr"
  obtain positions logged where
    cp: "calculate_positions sw times_arr (Some ?bodies) = Inr (positions, logged)"
    using calculate_positions_Inr [OF ne, of sw ?bodies]
    by (cases "calculate_bodies sw (map (to_jd sw) times_arr) ?bodies ([], [])") simp
  obtain cusps ascmc where ch: "calculate_houses sw times_arr lat lon = Inr (cusps, ascmc)"
    using calculate_houses_Inr [OF hs] by simp
  let ?L = "get_longitudes positions"
  let ?S = "get_speeds positions"
  let ?cfg = "get_theme_config topic"
  let ?rej = "rejection_mask times_arr ?L ?S cusps ascmc ?cfg"
  let ?sc = "compute_scores times_arr ?L ?S cusps ascmc ?cfg
               (case natal_chart of None \<Rightarrow> [] | Some c \<Rightarrow> c) ?bodies"
  let ?rows = "map (build_row times_arr (getitem ?L 1) ?rej ?sc) [0..<?N]"
  have rows: "find_elections sw start_dt end_dt lat lon natal_chart topic interval_minutes True
              = Inr ?rows"
    using find_elections_rows [OF tg ne cp ch, of natal_chart topic True] by simp
  have idx: "map (\<lambda>i. times_arr ! i) [0..<?N] = times_arr"
    by (rule map_nth)
  have e: "\<forall>kv \<in> set ?L. length (snd kv) = ?N" and keys: "fst ` set ?L = set ?bodies"
    using engine_arrays [OF ne cp] by simp_all
  have hl: "length cusps = ?N" "length ascmc = ?N"
    using calculate_houses_lengths [OF ch] by simp_all
  have k: "set ?bodies \<subseteq> fst ` set ?L" "0 \<in> fst ` set ?L" "1 \<in> fst ` set ?L"
    "{0, 1, 4, 6} \<subseteq> fst ` set ?L"
    by (simp_all only: keys) simp_all
  note shape = compute_scores_shape [OF e k(1) k(2) k(3) hl, of ?S ?cfg
      "case natal_chart of None \<Rightarrow> [] | Some c \<Rightarrow> c"]
  have rl: "length ?rej = ?N"
    using e k(4) hl by (rule rejection_mask_length)
  have sum: "sa_total ?sc ! i
      = sa_moon ?sc ! i + sa_r_asc ?sc ! i + sa_r_h10 ?sc ! i + sa_natal ?sc ! i + sa_comb ?sc ! i"
    if i: "i < ?N" for i
  proof -
    have "sa_total ?sc ! i
          = vadd (vadd (vadd (vadd (sa_moon ?sc) (sa_r_asc ?sc)) (sa_r_h10 ?sc)) (sa_natal ?sc))
              (sa_comb ?sc) ! i"
      using shape by simp
    also have "\<dots> = sa_moon ?sc ! i + sa_r_asc ?sc ! i + sa_r_h10 ?sc ! i + sa_natal ?sc ! i
                    + sa_comb ?sc ! i"
      using shape i by (simp add: vadd_nth)
    finally show ?thesis .
  qed
  have row: "is_valid (?rows ! i) = (\<not> ?rej ! i)
             \<and> score_total (?rows ! i) = sa_total ?sc ! i
             \<and> sa_total ?sc ! i
                 = sa_moon ?sc ! i + sa_r_asc ?sc ! i + sa_r_h10 ?sc ! i + sa_natal ?sc ! i + sa_comb ?sc ! i
             \<and> score_moon (?rows ! i) = sa_moon ?sc ! i
             \<and> score_r_asc (?rows ! i) = sa_r_asc ?sc ! i
             \<and> score_r_h10 (?rows ! i) = sa_r_h10 ?sc ! i
             \<and> score_natal (?rows ! i) = sa_natal ?sc ! i
             \<and> score_comb (?rows ! i) = sa_comb ?sc ! i
             \<and> score_positive (?rows ! i) = sa_positive ?sc ! i
             \<and> score_negative (?rows ! i) = sa_negative ?sc ! i
             \<and> score_normalized (?rows ! i)
                 = py_round (min (max ((sa_total ?sc ! i - sa_natal ?sc ! i) / 30 * 100) 0) 100 * (70 / 100)
                             + min (max (sa_natal ?sc ! i / 10 * 100) 0) 100 * (30 / 100)) 1
             \<and> components (?rows ! i)
                 = map (\<lambda>(k, v). (k, v ! i))
                       (filter (\<lambda>(k, v). \<bar>v ! i\<bar> > 1 / 1000) (sa_details ?sc))"
    if i: "i < ?N" for i
  proof -
    have r: "?rows ! i = build_row times_arr (getitem ?L 1) ?rej ?sc i"
      using i by simp
    show ?thesis
      unfolding r
      by (intro conjI build_row_fields build_row_normalized sum [OF i])
  qed
  have l: "length ?rows = ?N" by simp
  have ts: "map timestamp ?rows = times_arr"
    by (simp add: o_def build_row_fields idx)
  have arr: "length ?rej = ?N \<and> length (sa_total ?sc) = ?N \<and> length (sa_moon ?sc) = ?N
      \<and> length (sa_r_asc ?sc) = ?N \<and> length (sa_r_h10 ?sc) = ?N \<and> length (sa_natal ?sc) = ?N
      \<and> length (sa_comb ?sc) = ?N \<and> length (sa_positive ?sc) = ?N \<and> length (sa_negative ?sc) = ?N
      \<and> (\<forall>kv \<in> set (sa_details ?sc). length (snd kv) = ?N)"
    using shape rl by blast
  have all: "\<forall>i < ?N. is_valid (?rows ! i) = (\<not> ?rej ! i)
             \<and> score_total (?rows ! i) = sa_total ?sc ! i
             \<and> sa_total ?sc ! i
                 = sa_moon ?sc ! i + sa_r_asc ?sc ! i + sa_r_h10 ?sc ! i + sa_natal ?sc ! i + sa_comb ?sc ! i
             \<and> score_moon (?rows ! i) = sa_moon ?sc ! i
             \<and> score_r_asc (?rows ! i) = sa_r_asc ?sc ! i
             \<and> score_r_h10 (?rows ! i) = sa_r_h10 ?sc ! i
             \<and> score_natal (?rows ! i) = sa_natal ?sc ! i
             \<and> score_comb (?rows ! i) = sa_comb ?sc ! i
             \<and> score_positive (?rows ! i) = sa_positive ?sc ! i
             \<and> score_negative (?rows ! i) = sa_negative ?sc ! i
             \<and> score_normalized (?rows ! i)
                 = py_round (min (max ((sa_total ?sc ! i - sa_natal ?sc ! i) / 30 * 100) 0) 100 * (70 / 100)
                             + min (max (sa_natal ?sc ! i / 10 * 100) 0) 100 * (30 / 100)) 1
             \<and> components (?rows ! i)
                 = map (\<lambda>(k, v). (k, v ! i))
                       (filter (\<lambda>(k, v). \<bar>v ! i\<bar> > 1 / 1000) (sa_details ?sc))"
    using row by blast
  show ?thesis
    apply (rule exI [of _ positions], rule exI [of _ logged], rule exI [of _ cusps],
        rule exI [of _ ascmc], rule exI [of _ ?rows])
    unfolding Let_def
    using cp ch rows l ts arr all by (intro conjI) blast+
qed

theorem return_all_one_row_per_instant_witness:
  "time_grid 0 (2 * HOUR) 60 = Inr [0, HOUR]
   \<and> [0, HOUR] \<noteq> []
   \<and> houses demo_swe (to_jd demo_swe 0) 0 0 \<noteq> None
   \<and> houses demo_swe (to_jd demo_swe HOUR) 0 0 \<noteq> None
   \<and> length (projr (find_elections demo_swe 0 (2 * HOUR) 0 0 None ''amor'' 60 True)) = 2
   \<and> map (\<lambda>r. (timestamp r, is_valid r, score_comb r))
        (projr (find_elections demo_swe 0 (2 * HOUR) 0 0 None ''amor'' 60 True))
      = [(0, True, 2), (HOUR, False, 2)]"
proof -
  have ne: "[0, HOUR] \<noteq> []" by simp
  have h0: "houses demo_swe (to_jd demo_swe 0) 0 0 \<noteq> None"
    and h1: "houses demo_swe (to_jd demo_swe HOUR) 0 0 \<noteq> None"
    by (simp_all add: demo_sel)
  have hs: "\<forall>t \<in> set [0, HOUR]. houses demo_swe (to_jd demo_swe t) 0 0 \<noteq> None"
    using h0 h1 by simp
  have ev: "length (projr (find_elections demo_swe 0 (2 * HOUR) 0 0 None ''amor'' 60 True)) = 2
     \<and> map (\<lambda>r. (timestamp r, is_valid r, score_comb r))
        (projr (find_elections demo_swe 0 (2 * HOUR) 0 0 None ''amor'' 60 True))
      = [(0, True, 2), (HOUR, False, 2)]"
    by (simp add: demo_find_rows demo_rejection_amor upt_rec build_row_fields
        compute_scores_comb demo_comb_amor)
  have "\<exists>rows. find_elections demo_swe 0 (2 * HOUR) 0 0 None ''amor'' 60 True = Inr rows
          \<and> length rows = length [0, HOUR]"
    using return_all_one_row_per_instant [OF demo_grid ne hs, of None "''amor''"] by blast
  with demo_grid ne h0 h1 ev show ?thesis by blast
qed

end
